theory Spec2Isabelle
  imports Main "HOL-Library.Word"
begin

section \<open>Data model\<close>

text \<open>
  The two contracts \<^verbatim>\<open>GiftCardNFT\<close> and \<^verbatim>\<open>Marketplace\<close> are embedded over one
  record holding the storage of both, the ledgers of the asset contracts they call, the
  native balances and the log of emitted events.  A Solidity \<^verbatim>\<open>mapping\<close> is a total
  function whose unwritten slots read as the zero value, \<^verbatim>\<open>uint256\<close> is a 256-bit word
  and \<^verbatim>\<open>address\<close> a 160-bit word.  A \<^verbatim>\<open>revert\<close> is the \<open>Inl\<close> branch of a sum; the
  roll-back that the execution environment performs on a revert is \<open>exec\<close> below.
\<close>

type_synonym address = "160 word"
type_synonym uint256 = "256 word"

datatype error =
    InsufficientBalance
  | InvalidTokenAddress
  | NotTokenOwner
  | AlreadyLiquidated
  | TransferFailed
  | InvalidListing
  | InsufficientPayment
  | NotSeller
  | NotApproved
  | ERC721NonexistentToken
  | ERC721InvalidReceiver
  | ERC721InvalidSender
  | ERC721IncorrectOwner
  | ERC721InsufficientApproval
  | ERC721InvalidApprover
  | ERC721InvalidOperator
  | ERC20InsufficientAllowance
  | ERC20InsufficientBalance
  | ERC20InvalidSender
  | ERC20InvalidReceiver
  | ERC20InvalidApprover
  | ERC20InvalidSpender
  | SafeERC20FailedOperation
  | CallReverted
  | ArithmeticPanic
  | InsufficientFunds

datatype event =
    GiftCardCreated uint256 address address uint256
  | GiftCardLiquidated uint256 address uint256
  | ArtistListingCreated uint256 address uint256
  | ArtistDesignPurchased uint256 address address
  | GiftCardListed uint256 uint256 uint256
  | GiftCardSold uint256 uint256 address
  | ListingCancelled uint256 string

record TokenVault =
  tokenAddress :: address
  amount :: uint256
  liquidated :: bool

record ArtistListing =
  listingId :: uint256
  artist :: address
  ipfsHash :: string
  price :: uint256
  active :: bool

record GiftCardListing =
  listingId :: uint256
  tokenId :: uint256
  seller :: address
  price :: uint256
  active :: bool

text \<open>
  Storage of \<^verbatim>\<open>GiftCardNFT\<close> (the first seven fields; the first five are the storage it
  inherits from the imported ERC-721 base contracts), storage of \<^verbatim>\<open>Marketplace\<close> (the
  next four), and the world outside the two contracts: per asset contract its balances
  and allowances, the native balances, and the event log.
\<close>

record state =
  owners :: "uint256 \<Rightarrow> address"
  balances :: "address \<Rightarrow> uint256"
  tokenApprovals :: "uint256 \<Rightarrow> address"
  operatorApprovals :: "address \<Rightarrow> address \<Rightarrow> bool"
  tokenURIs :: "uint256 \<Rightarrow> string"
  vaults :: "uint256 \<Rightarrow> TokenVault"
  tokenIdCounter :: uint256
  artistListings :: "uint256 \<Rightarrow> ArtistListing"
  giftCardListings :: "uint256 \<Rightarrow> GiftCardListing"
  artistListingCounter :: uint256
  giftCardListingCounter :: uint256
  erc20Balances :: "address \<Rightarrow> address \<Rightarrow> uint256"
  erc20Allowances :: "address \<Rightarrow> address \<Rightarrow> address \<Rightarrow> uint256"
  nativeBalances :: "address \<Rightarrow> uint256"
  events :: "event list"

text \<open>
  What the deployment fixes and what the accounts outside do when called: the addresses
  of the two contracts, whether an account accepts a native payment (the \<^verbatim>\<open>success\<close>
  flag of \<^verbatim>\<open>call{value: ...}("")\<close>), and whether it accepts a safely minted or safely
  transferred token (the \<^verbatim>\<open>onERC721Received\<close> check), and whether an address is an
  asset contract, that is, has code answering the ERC-20 calls.  A callee is modelled by
  the outcome of the call only.
\<close>

record env =
  nftAddr :: address
  mktAddr :: address
  acceptsNative :: "address \<Rightarrow> bool"
  acceptsNFT :: "address \<Rightarrow> bool"
  isERC20 :: "address \<Rightarrow> bool"

definition zeroVault :: TokenVault where
  "zeroVault = \<lparr>tokenAddress = 0, amount = 0, liquidated = False\<rparr>"

definition zeroArtistListing :: ArtistListing where
  "zeroArtistListing =
     \<lparr>ArtistListing.listingId = 0, artist = 0, ipfsHash = [], price = 0, active = False\<rparr>"

definition zeroGiftCardListing :: GiftCardListing where
  "zeroGiftCardListing =
     \<lparr>GiftCardListing.listingId = 0, tokenId = 0, seller = 0, price = 0, active = False\<rparr>"

text \<open>The state right after both constructors ran, over given outside ledgers.\<close>

definition deployed ::
  "(address \<Rightarrow> address \<Rightarrow> uint256) \<Rightarrow> (address \<Rightarrow> address \<Rightarrow> address \<Rightarrow> uint256) \<Rightarrow>
   (address \<Rightarrow> uint256) \<Rightarrow> state" where
  "deployed bal allow native =
     \<lparr>owners = (\<lambda>_. 0), balances = (\<lambda>_. 0), tokenApprovals = (\<lambda>_. 0),
      operatorApprovals = (\<lambda>_ _. False), tokenURIs = (\<lambda>_. []),
      vaults = (\<lambda>_. zeroVault), tokenIdCounter = 0,
      artistListings = (\<lambda>_. zeroArtistListing),
      giftCardListings = (\<lambda>_. zeroGiftCardListing),
      artistListingCounter = 0, giftCardListingCounter = 0,
      erc20Balances = bal, erc20Allowances = allow, nativeBalances = native,
      events = []\<rparr>"

section \<open>Imported base contracts\<close>

text \<open>
  \<^verbatim>\<open>GiftCardNFT\<close> inherits \<^verbatim>\<open>ERC721URIStorage\<close> and calls assets through \<^verbatim>\<open>SafeERC20\<close>;
  \<^verbatim>\<open>Marketplace\<close> calls the token through \<^verbatim>\<open>IERC721\<close>.  These are the OpenZeppelin 5
  contracts named by the \<^verbatim>\<open>import\<close> lines (the constructor \<^verbatim>\<open>Ownable(msg.sender)\<close> fixes
  the major version); their text is not part of the repository, so the functions of this
  section follow the library: \<^verbatim>\<open>ownerOf\<close>, \<^verbatim>\<open>getApproved\<close> and \<^verbatim>\<open>tokenURI\<close> revert on a
  token that has no owner, \<^verbatim>\<open>_update\<close> checks the authorisation of the sender, clears
  the single-token approval and moves the token, \<^verbatim>\<open>_mint\<close> refuses an existing token.
  Events of the base contracts are not recorded in the log.
\<close>

definition ownerOf :: "state \<Rightarrow> uint256 \<Rightarrow> error + address" where
  "ownerOf s tid =
     (if owners s tid = 0 then Inl ERC721NonexistentToken else Inr (owners s tid))"

definition getApproved :: "state \<Rightarrow> uint256 \<Rightarrow> error + address" where
  "getApproved s tid =
     (if owners s tid = 0 then Inl ERC721NonexistentToken else Inr (tokenApprovals s tid))"

definition tokenURI :: "state \<Rightarrow> uint256 \<Rightarrow> error + string" where
  "tokenURI s tid =
     (if owners s tid = 0 then Inl ERC721NonexistentToken else Inr (tokenURIs s tid))"

definition isAuthorized :: "state \<Rightarrow> address \<Rightarrow> address \<Rightarrow> uint256 \<Rightarrow> bool" where
  "isAuthorized s owner spender tid \<longleftrightarrow>
     spender \<noteq> 0 \<and>
     (owner = spender \<or> operatorApprovals s owner spender \<or> tokenApprovals s tid = spender)"

definition update721 :: "address \<Rightarrow> uint256 \<Rightarrow> address \<Rightarrow> state \<Rightarrow> error + (state \<times> address)" where
  "update721 to tid auth s =
     (let frm = owners s tid in
      if auth \<noteq> 0 \<and> \<not> isAuthorized s frm auth tid then
        Inl (if frm = 0 then ERC721NonexistentToken else ERC721InsufficientApproval)
      else
        let s1 = (if frm \<noteq> 0
                  then s\<lparr>tokenApprovals := (tokenApprovals s)(tid := 0),
                         balances := (balances s)(frm := balances s frm - 1)\<rparr>
                  else s);
            s2 = (if to \<noteq> 0
                  then s1\<lparr>balances := (balances s1)(to := balances s1 to + 1)\<rparr>
                  else s1)
        in Inr (s2\<lparr>owners := (owners s2)(tid := to)\<rparr>, frm))"

definition transferFrom :: "address \<Rightarrow> address \<Rightarrow> address \<Rightarrow> uint256 \<Rightarrow> state \<Rightarrow> error + state" where
  "transferFrom sender frm to tid s =
     (if to = 0 then Inl ERC721InvalidReceiver
      else case update721 to tid sender s of
             Inl e \<Rightarrow> Inl e
           | Inr (s1, previousOwner) \<Rightarrow>
               if previousOwner \<noteq> frm then Inl ERC721IncorrectOwner else Inr s1)"

definition safeTransferFrom ::
  "env \<Rightarrow> address \<Rightarrow> address \<Rightarrow> address \<Rightarrow> uint256 \<Rightarrow> state \<Rightarrow> error + state" where
  "safeTransferFrom en sender frm to tid s =
     (case transferFrom sender frm to tid s of
        Inl e \<Rightarrow> Inl e
      | Inr s1 \<Rightarrow> if acceptsNFT en to then Inr s1 else Inl ERC721InvalidReceiver)"

definition safeMint :: "env \<Rightarrow> address \<Rightarrow> uint256 \<Rightarrow> state \<Rightarrow> error + state" where
  "safeMint en to tid s =
     (if to = 0 then Inl ERC721InvalidReceiver
      else case update721 to tid 0 s of
             Inl e \<Rightarrow> Inl e
           | Inr (s1, previousOwner) \<Rightarrow>
               if previousOwner \<noteq> 0 then Inl ERC721InvalidSender
               else if acceptsNFT en to then Inr s1 else Inl ERC721InvalidReceiver)"

definition approve :: "address \<Rightarrow> address \<Rightarrow> uint256 \<Rightarrow> state \<Rightarrow> error + state" where
  "approve sender to tid s =
     (case ownerOf s tid of
        Inl e \<Rightarrow> Inl e
      | Inr owner \<Rightarrow>
          if sender \<noteq> 0 \<and> owner \<noteq> sender \<and> \<not> operatorApprovals s owner sender
          then Inl ERC721InvalidApprover
          else Inr (s\<lparr>tokenApprovals := (tokenApprovals s)(tid := to)\<rparr>))"

definition setApprovalForAll :: "address \<Rightarrow> address \<Rightarrow> bool \<Rightarrow> state \<Rightarrow> error + state" where
  "setApprovalForAll sender operator approved s =
     (if operator = 0 then Inl ERC721InvalidOperator
      else Inr (s\<lparr>operatorApprovals :=
                   (operatorApprovals s)(sender := (operatorApprovals s sender)(operator := approved))\<rparr>))"

text \<open>
  The asset contracts.  An address that is an asset contract (\<open>isERC20\<close>) holds a
  standard ERC-20 ledger, as the repository's own \<^verbatim>\<open>MockERC20\<close> does: \<^verbatim>\<open>transfer\<close> and
  \<^verbatim>\<open>transferFrom\<close> revert on a missing balance or allowance (the safe wrappers pass the
  revert on), an allowance of the maximal value is not spent, and balances move with
  unchecked arithmetic.  At any other address (no code, or code without these
  functions) a call of \<^verbatim>\<open>balanceOf\<close> reverts without a reason and the safe wrappers
  revert with \<open>SafeERC20FailedOperation\<close>.
\<close>

definition erc20Update :: "address \<Rightarrow> address \<Rightarrow> address \<Rightarrow> uint256 \<Rightarrow> state \<Rightarrow> error + state" where
  "erc20Update token frm to val s =
     (if frm = 0 then Inl ERC20InvalidSender
      else if to = 0 then Inl ERC20InvalidReceiver
      else if erc20Balances s token frm < val then Inl ERC20InsufficientBalance
      else
        let b = erc20Balances s token;
            b1 = b(frm := b frm - val);
            b2 = b1(to := b1 to + val)
        in Inr (s\<lparr>erc20Balances := (erc20Balances s)(token := b2)\<rparr>))"

definition safeTransfer ::
  "env \<Rightarrow> address \<Rightarrow> address \<Rightarrow> address \<Rightarrow> uint256 \<Rightarrow> state \<Rightarrow> error + state" where
  "safeTransfer en token sender to val s =
     (if \<not> isERC20 en token then Inl SafeERC20FailedOperation
      else erc20Update token sender to val s)"

definition spendAllowance :: "address \<Rightarrow> address \<Rightarrow> address \<Rightarrow> uint256 \<Rightarrow> state \<Rightarrow> error + state" where
  "spendAllowance token owner spender val s =
     (let currentAllowance = erc20Allowances s token owner spender in
      if currentAllowance < - 1 then
        if currentAllowance < val then Inl ERC20InsufficientAllowance
        else if owner = 0 then Inl ERC20InvalidApprover
        else if spender = 0 then Inl ERC20InvalidSpender
        else Inr (s\<lparr>erc20Allowances :=
                     (erc20Allowances s)(token :=
                        (erc20Allowances s token)(owner :=
                           (erc20Allowances s token owner)(spender := currentAllowance - val)))\<rparr>)
      else Inr s)"

definition safeTransferFrom20 ::
  "env \<Rightarrow> address \<Rightarrow> address \<Rightarrow> address \<Rightarrow> address \<Rightarrow> uint256 \<Rightarrow> state \<Rightarrow> error + state" where
  "safeTransferFrom20 en token spender frm to val s =
     (if \<not> isERC20 en token then Inl SafeERC20FailedOperation
      else case spendAllowance token frm spender val s of
        Inl e \<Rightarrow> Inl e
      | Inr s1 \<Rightarrow> erc20Update token frm to val s1)"

text \<open>
  Native currency: a payable call moves \<^verbatim>\<open>msg.value\<close> from the caller to the contract
  before the body runs, and \<^verbatim>\<open>call{value: v}("")\<close> moves \<open>v\<close> on when the callee accepts.
\<close>

definition payNative :: "address \<Rightarrow> address \<Rightarrow> uint256 \<Rightarrow> state \<Rightarrow> state" where
  "payNative frm to val s =
     (let b = nativeBalances s;
          b1 = b(frm := b frm - val);
          b2 = b1(to := b1 to + val)
      in s\<lparr>nativeBalances := b2\<rparr>)"

section \<open>GiftCardNFT\<close>

text \<open>
  The entry points of both contracts are embedded as they run when called at a
  transaction boundary.  There the guard of \<^verbatim>\<open>nonReentrant\<close> is not entered, and it is
  left again when the call returns or reverts, so that the modifier changes neither the
  result nor the state of such a call.  A call that arrives while a guarded function of
  the same contract is running is answered by the guard and is not described by these
  functions: nothing below applies an entry point to the state in the middle of a call.
\<close>

definition createGiftCard ::
  "env \<Rightarrow> address \<Rightarrow> string \<Rightarrow> address \<Rightarrow> uint256 \<Rightarrow> state \<Rightarrow> error + (state \<times> uint256)" where
  "createGiftCard en sender metadataURI tokenAddr tokenAmount s =
     (if tokenAddr = 0 then Inl InvalidTokenAddress
      else if tokenAmount = 0 then Inl InsufficientBalance
      else if \<not> isERC20 en tokenAddr then Inl CallReverted
      else if erc20Balances s tokenAddr sender < tokenAmount then Inl InsufficientBalance
      else case safeTransferFrom20 en tokenAddr (nftAddr en) sender (nftAddr en) tokenAmount s of
        Inl e \<Rightarrow> Inl e
      | Inr s1 \<Rightarrow>
          if tokenIdCounter s1 = - 1 then Inl ArithmeticPanic
          else
            let tid = tokenIdCounter s1;
                s2 = s1\<lparr>tokenIdCounter := tid + 1\<rparr>
            in case safeMint en sender tid s2 of
                 Inl e \<Rightarrow> Inl e
               | Inr s3 \<Rightarrow>
                   let s4 = s3\<lparr>tokenURIs := (tokenURIs s3)(tid := metadataURI)\<rparr>;
                       s5 = s4\<lparr>vaults := (vaults s4)(tid :=
                              \<lparr>tokenAddress = tokenAddr, amount = tokenAmount,
                               liquidated = False\<rparr>)\<rparr>;
                       s6 = s5\<lparr>events := events s5 @
                              [GiftCardCreated tid sender tokenAddr tokenAmount]\<rparr>
                   in Inr (s6, tid))"

text \<open>
  \<^verbatim>\<open>liquidate\<close> in two parts: \<open>liquidateChecks\<close> is the function up to and including
  \<^verbatim>\<open>vault.liquidated = true\<close>, \<open>liquidatePayout\<close> is the transfer and the event, run in
  the state the first part leaves.
\<close>

definition liquidateChecks :: "address \<Rightarrow> uint256 \<Rightarrow> state \<Rightarrow> error + state" where
  "liquidateChecks sender tid s =
     (case ownerOf s tid of
        Inl e \<Rightarrow> Inl e
      | Inr owner \<Rightarrow>
          if owner \<noteq> sender then Inl NotTokenOwner
          else if liquidated (vaults s tid) then Inl AlreadyLiquidated
          else Inr (s\<lparr>vaults := (vaults s)(tid := (vaults s tid)\<lparr>liquidated := True\<rparr>)\<rparr>))"

definition liquidatePayout :: "env \<Rightarrow> address \<Rightarrow> uint256 \<Rightarrow> state \<Rightarrow> error + state" where
  "liquidatePayout en sender tid s1 =
     (case safeTransfer en (tokenAddress (vaults s1 tid)) (nftAddr en) sender
             (amount (vaults s1 tid)) s1 of
        Inl e \<Rightarrow> Inl e
      | Inr s2 \<Rightarrow>
          Inr (s2\<lparr>events := events s2 @
                 [GiftCardLiquidated tid sender (amount (vaults s2 tid))]\<rparr>))"

definition liquidate :: "env \<Rightarrow> address \<Rightarrow> uint256 \<Rightarrow> state \<Rightarrow> error + state" where
  "liquidate en sender tid s =
     (case liquidateChecks sender tid s of
        Inl e \<Rightarrow> Inl e
      | Inr s1 \<Rightarrow> liquidatePayout en sender tid s1)"

definition getVaultContents :: "state \<Rightarrow> uint256 \<Rightarrow> TokenVault" where
  "getVaultContents s tid = vaults s tid"

definition getMetadataURI :: "state \<Rightarrow> uint256 \<Rightarrow> error + string" where
  "getMetadataURI s tid = tokenURI s tid"

definition totalSupply :: "state \<Rightarrow> uint256" where
  "totalSupply s = tokenIdCounter s"

section \<open>Marketplace\<close>

definition createArtistListing ::
  "address \<Rightarrow> string \<Rightarrow> uint256 \<Rightarrow> state \<Rightarrow> error + (state \<times> uint256)" where
  "createArtistListing sender hash prc s =
     (if length hash = 0 then Inl InvalidListing
      else if prc = 0 then Inl InvalidListing
      else if artistListingCounter s = - 1 then Inl ArithmeticPanic
      else
        let lid = artistListingCounter s;
            s1 = s\<lparr>artistListingCounter := lid + 1\<rparr>;
            s2 = s1\<lparr>artistListings := (artistListings s1)(lid :=
                   \<lparr>ArtistListing.listingId = lid, artist = sender, ipfsHash = hash,
                    price = prc, active = True\<rparr>)\<rparr>;
            s3 = s2\<lparr>events := events s2 @ [ArtistListingCreated lid sender prc]\<rparr>
        in Inr (s3, lid))"

text \<open>
  \<^verbatim>\<open>purchaseArtistDesign\<close> in two parts: \<open>purchaseArtistDesignChecks\<close> receives
  \<^verbatim>\<open>msg.value\<close> and runs the function up to and including \<^verbatim>\<open>listing.active = false\<close>;
  \<open>purchaseArtistDesignPayout\<close> is the payment to the artist, the event and the result,
  run in the state the first part leaves.
\<close>

definition purchaseArtistDesignChecks ::
  "env \<Rightarrow> address \<Rightarrow> uint256 \<Rightarrow> uint256 \<Rightarrow> state \<Rightarrow> error + state" where
  "purchaseArtistDesignChecks en sender val lid s =
     (if nativeBalances s sender < val then Inl InsufficientFunds
      else
        let s0 = payNative sender (mktAddr en) val s;
            listing = artistListings s0 lid
        in if \<not> ArtistListing.active listing then Inl InvalidListing
           else if val < ArtistListing.price listing then Inl InsufficientPayment
           else Inr (s0\<lparr>artistListings := (artistListings s0)(lid :=
                        listing\<lparr>ArtistListing.active := False\<rparr>)\<rparr>))"

definition purchaseArtistDesignPayout ::
  "env \<Rightarrow> address \<Rightarrow> uint256 \<Rightarrow> uint256 \<Rightarrow> state \<Rightarrow> error + (state \<times> string)" where
  "purchaseArtistDesignPayout en sender val lid s1 =
     (let listing = artistListings s1 lid in
      if \<not> acceptsNative en (artist listing) then Inl TransferFailed
      else
        let s2 = payNative (mktAddr en) (artist listing) val s1;
            s3 = s2\<lparr>events := events s2 @
                   [ArtistDesignPurchased lid sender (artist listing)]\<rparr>
        in Inr (s3, ipfsHash (artistListings s3 lid)))"

definition purchaseArtistDesign ::
  "env \<Rightarrow> address \<Rightarrow> uint256 \<Rightarrow> uint256 \<Rightarrow> state \<Rightarrow> error + (state \<times> string)" where
  "purchaseArtistDesign en sender val lid s =
     (case purchaseArtistDesignChecks en sender val lid s of
        Inl e \<Rightarrow> Inl e
      | Inr s1 \<Rightarrow> purchaseArtistDesignPayout en sender val lid s1)"

definition cancelArtistListing :: "address \<Rightarrow> uint256 \<Rightarrow> state \<Rightarrow> error + state" where
  "cancelArtistListing sender lid s =
     (let listing = artistListings s lid in
      if artist listing \<noteq> sender then Inl NotSeller
      else if \<not> ArtistListing.active listing then Inl InvalidListing
      else
        let s1 = s\<lparr>artistListings := (artistListings s)(lid :=
                   listing\<lparr>ArtistListing.active := False\<rparr>)\<rparr>
        in Inr (s1\<lparr>events := events s1 @ [ListingCancelled lid ''artist'']\<rparr>))"

definition listGiftCard ::
  "env \<Rightarrow> address \<Rightarrow> uint256 \<Rightarrow> uint256 \<Rightarrow> state \<Rightarrow> error + (state \<times> uint256)" where
  "listGiftCard en sender tid prc s =
     (case ownerOf s tid of
        Inl e \<Rightarrow> Inl e
      | Inr owner \<Rightarrow>
          if owner \<noteq> sender then Inl NotSeller
          else if prc = 0 then Inl InvalidListing
          else case getApproved s tid of
            Inl e \<Rightarrow> Inl e
          | Inr approved \<Rightarrow>
              if approved \<noteq> mktAddr en then Inl NotApproved
              else case transferFrom (mktAddr en) sender (mktAddr en) tid s of
                Inl e \<Rightarrow> Inl e
              | Inr s1 \<Rightarrow>
                  if giftCardListingCounter s1 = - 1 then Inl ArithmeticPanic
                  else
                    let lid = giftCardListingCounter s1;
                        s2 = s1\<lparr>giftCardListingCounter := lid + 1\<rparr>;
                        s3 = s2\<lparr>giftCardListings := (giftCardListings s2)(lid :=
                               \<lparr>GiftCardListing.listingId = lid, tokenId = tid,
                                seller = sender, price = prc, active = True\<rparr>)\<rparr>;
                        s4 = s3\<lparr>events := events s3 @ [GiftCardListed lid tid prc]\<rparr>
                    in Inr (s4, lid))"

definition purchaseGiftCard ::
  "env \<Rightarrow> address \<Rightarrow> uint256 \<Rightarrow> uint256 \<Rightarrow> state \<Rightarrow> error + state" where
  "purchaseGiftCard en sender val lid s =
     (if nativeBalances s sender < val then Inl InsufficientFunds
      else
        let s0 = payNative sender (mktAddr en) val s;
            listing = giftCardListings s0 lid
        in if \<not> active listing then Inl InvalidListing
           else if val < price listing then Inl InsufficientPayment
           else
             let s1 = s0\<lparr>giftCardListings := (giftCardListings s0)(lid :=
                        listing\<lparr>active := False\<rparr>)\<rparr>
             in case transferFrom (mktAddr en) (mktAddr en) sender (tokenId listing) s1 of
                  Inl e \<Rightarrow> Inl e
                | Inr s2 \<Rightarrow>
                    if \<not> acceptsNative en (seller listing) then Inl TransferFailed
                    else
                      let s3 = payNative (mktAddr en) (seller listing) val s2
                      in Inr (s3\<lparr>events := events s3 @
                                [GiftCardSold lid (tokenId listing) sender]\<rparr>))"

definition cancelGiftCardListing :: "env \<Rightarrow> address \<Rightarrow> uint256 \<Rightarrow> state \<Rightarrow> error + state" where
  "cancelGiftCardListing en sender lid s =
     (let listing = giftCardListings s lid in
      if seller listing \<noteq> sender then Inl NotSeller
      else if \<not> active listing then Inl InvalidListing
      else
        let s1 = s\<lparr>giftCardListings := (giftCardListings s)(lid :=
                   listing\<lparr>active := False\<rparr>)\<rparr>
        in case transferFrom (mktAddr en) (mktAddr en) sender (tokenId listing) s1 of
             Inl e \<Rightarrow> Inl e
           | Inr s2 \<Rightarrow> Inr (s2\<lparr>events := events s2 @ [ListingCancelled lid ''giftcard'']\<rparr>))"

definition getArtistListing :: "state \<Rightarrow> uint256 \<Rightarrow> ArtistListing" where
  "getArtistListing s lid = artistListings s lid"

definition getGiftCardListing :: "state \<Rightarrow> uint256 \<Rightarrow> GiftCardListing" where
  "getGiftCardListing s lid = giftCardListings s lid"

section \<open>Transactions\<close>

text \<open>
  The public mutating entry points of the two contracts, with their arguments (for the
  payable ones the listing id and then \<^verbatim>\<open>msg.value\<close>), and \<open>Outside\<close>: anything that
  happens outside the two contracts (asset transfers and approvals, native payments
  between accounts), over-approximated by an arbitrary new content of the outside
  ledgers.
\<close>

datatype call =
    CreateGiftCard string address uint256
  | Liquidate uint256
  | Approve address uint256
  | SetApprovalForAll address bool
  | TransferFrom address address uint256
  | SafeTransferFrom address address uint256
  | CreateArtistListing string uint256
  | PurchaseArtistDesign uint256 uint256
  | CancelArtistListing uint256
  | ListGiftCard uint256 uint256
  | PurchaseGiftCard uint256 uint256
  | CancelGiftCardListing uint256
  | Outside "address \<Rightarrow> address \<Rightarrow> uint256" "address \<Rightarrow> address \<Rightarrow> address \<Rightarrow> uint256"
      "address \<Rightarrow> uint256"

fun step :: "env \<Rightarrow> address \<Rightarrow> call \<Rightarrow> state \<Rightarrow> error + state" where
  "step en c (CreateGiftCard uri tok amt) s = map_sum id fst (createGiftCard en c uri tok amt s)"
| "step en c (Liquidate tid) s = liquidate en c tid s"
| "step en c (Approve to tid) s = approve c to tid s"
| "step en c (SetApprovalForAll operator approved) s = setApprovalForAll c operator approved s"
| "step en c (TransferFrom frm to tid) s = transferFrom c frm to tid s"
| "step en c (SafeTransferFrom frm to tid) s = safeTransferFrom en c frm to tid s"
| "step en c (CreateArtistListing hash prc) s = map_sum id fst (createArtistListing c hash prc s)"
| "step en c (PurchaseArtistDesign lid val) s = map_sum id fst (purchaseArtistDesign en c val lid s)"
| "step en c (CancelArtistListing lid) s = cancelArtistListing c lid s"
| "step en c (ListGiftCard tid prc) s = map_sum id fst (listGiftCard en c tid prc s)"
| "step en c (PurchaseGiftCard lid val) s = purchaseGiftCard en c val lid s"
| "step en c (CancelGiftCardListing lid) s = cancelGiftCardListing en c lid s"
| "step en c (Outside bal allow native) s =
     Inr (s\<lparr>erc20Balances := bal, erc20Allowances := allow, nativeBalances := native\<rparr>)"

text \<open>
  A transaction that reverts leaves the state it started from: the execution
  environment discards every write of the reverted call, the received \<^verbatim>\<open>msg.value\<close>
  included.
\<close>

definition exec :: "env \<Rightarrow> address \<Rightarrow> call \<Rightarrow> state \<Rightarrow> state" where
  "exec en c x s = (case step en c x s of Inl e \<Rightarrow> s | Inr s1 \<Rightarrow> s1)"

fun run :: "env \<Rightarrow> (address \<times> call) list \<Rightarrow> state \<Rightarrow> state" where
  "run en [] s = s"
| "run en ((c, x) # xs) s = run en xs (exec en c x s)"

text \<open>
  A call is rejected with an error when it fails with that error and the state after
  it is the state before it.
\<close>

definition rejected :: "env \<Rightarrow> address \<Rightarrow> call \<Rightarrow> state \<Rightarrow> error \<Rightarrow> bool" where
  "rejected en c x s e \<longleftrightarrow> step en c x s = Inl e \<and> exec en c x s = s"

text \<open>
  The sender of a transaction is never the zero address, and it is never the
  marketplace: the only calls the marketplace makes are the three token transfers
  written in \<open>listGiftCard\<close>, \<open>purchaseGiftCard\<close> and \<open>cancelGiftCardListing\<close>
  and the two native payments.
\<close>

definition senderOk :: "env \<Rightarrow> address \<Rightarrow> bool" where
  "senderOk en c \<longleftrightarrow> c \<noteq> 0 \<and> c \<noteq> mktAddr en"

definition sendersOk :: "env \<Rightarrow> (address \<times> call) list \<Rightarrow> bool" where
  "sendersOk en xs \<longleftrightarrow> list_all (\<lambda>(c, x). senderOk en c) xs"

text \<open>
  What holds of every state the transactions reach, and carries the custody property:
  an active resale listing has its token in the marketplace's hands, no two active
  listings name the same token, nobody is an operator for the marketplace or for the
  zero address, and a token held by the marketplace or not minted has no approved
  spender.
\<close>

definition escrowInv :: "env \<Rightarrow> state \<Rightarrow> bool" where
  "escrowInv en s \<longleftrightarrow>
     (\<forall>lid. active (giftCardListings s lid) \<longrightarrow>
            owners s (tokenId (giftCardListings s lid)) = mktAddr en) \<and>
     (\<forall>l1 l2. active (giftCardListings s l1) \<and> active (giftCardListings s l2) \<and>
              tokenId (giftCardListings s l1) = tokenId (giftCardListings s l2) \<longrightarrow> l1 = l2) \<and>
     (\<forall>a. \<not> operatorApprovals s (mktAddr en) a \<and> \<not> operatorApprovals s 0 a) \<and>
     (\<forall>tid. owners s tid = mktAddr en \<or> owners s tid = 0 \<longrightarrow> tokenApprovals s tid = 0)"

section \<open>A small world to run the contracts in\<close>

text \<open>
  The token contract lives at address 100 and the marketplace at 200; the asset
  contracts are at 7 and 8.  Account 9 refuses native payments, as the marketplace
  itself does (it has no payable fallback), and refuses tokens; every other account
  accepts both.  Accounts 1, 4 and 9 hold 500 units of every asset; 1 and 9 have
  allowed the token contract to pull them, 4 has not.  Every account holds 1000 units
  of native currency.
\<close>

definition exampleEnv :: env where
  "exampleEnv =
     \<lparr>nftAddr = 100, mktAddr = 200, acceptsNative = (\<lambda>a. a \<noteq> 200 \<and> a \<noteq> 9),
      acceptsNFT = (\<lambda>a. a \<noteq> 9), isERC20 = (\<lambda>a. a = 7 \<or> a = 8)\<rparr>"

definition exampleState :: state where
  "exampleState =
     deployed (\<lambda>t a. if a = 1 \<or> a = 4 \<or> a = 9 then 500 else 0)
       (\<lambda>t a sp. if (a = 1 \<or> a = 9) \<and> sp = 100 then 500 else 0) (\<lambda>a. 1000)"

text \<open>Account 1 has deposited 100 units of asset 7 into token 0.\<close>

definition exampleMinted :: state where
  "exampleMinted = run exampleEnv [(1, CreateGiftCard ''uri'' 7 100)] exampleState"

text \<open>Account 1 has then approved the marketplace and listed token 0 for 50.\<close>

definition exampleListed :: state where
  "exampleListed =
     run exampleEnv [(1, Approve 200 0), (1, ListGiftCard 0 50)] exampleMinted"

text \<open>Account 3 has listed an artwork for 50 in the freshly deployed world.\<close>

definition exampleArtwork :: state where
  "exampleArtwork = run exampleEnv [(3, CreateArtistListing ''Qm'' 50)] exampleState"

text \<open>The same listing made by account 9, who refuses native payments.\<close>

definition exampleArtworkRefusing :: state where
  "exampleArtworkRefusing = run exampleEnv [(9, CreateArtistListing ''Qm'' 50)] exampleState"

text \<open>
  Token 0 has gone to account 9, who has approved the marketplace and listed it for 50.
\<close>

definition exampleListedRefusing :: state where
  "exampleListedRefusing =
     run exampleEnv [(1, TransferFrom 1 9 0), (9, Approve 200 0), (9, ListGiftCard 0 50)]
       exampleMinted"

text \<open>After the deposit, the asset ledgers have been emptied from outside.\<close>

definition exampleDrained :: state where
  "exampleDrained =
     exec exampleEnv 1 (Outside (\<lambda>t a. 0) (\<lambda>t a sp. 0) (\<lambda>a. 1000)) exampleMinted"

section \<open>Unfolding and evaluation\<close>

lemmas base_defs = ownerOf_def getApproved_def tokenURI_def isAuthorized_def update721_def
  transferFrom_def safeTransferFrom_def safeMint_def approve_def setApprovalForAll_def
  erc20Update_def safeTransfer_def spendAllowance_def safeTransferFrom20_def payNative_def

lemmas op_defs = createGiftCard_def liquidate_def liquidateChecks_def liquidatePayout_def
  createArtistListing_def purchaseArtistDesign_def purchaseArtistDesignChecks_def
  purchaseArtistDesignPayout_def cancelArtistListing_def listGiftCard_def purchaseGiftCard_def
  cancelGiftCardListing_def getVaultContents_def getMetadataURI_def

lemmas example_defs = exampleEnv_def exampleState_def exampleMinted_def exampleListed_def
  exampleArtwork_def exampleArtworkRefusing_def exampleListedRefusing_def exampleDrained_def
  deployed_def zeroVault_def zeroArtistListing_def zeroGiftCardListing_def
  exec_def senderOk_def sendersOk_def

section \<open>What a successful call leaves\<close>

lemma update721_Inr:
  assumes "update721 to tid auth s = Inr (s1, prev)"
  shows "prev = owners s tid \<and> (auth \<noteq> 0 \<longrightarrow> isAuthorized s prev auth tid) \<and>
         owners s1 = (owners s)(tid := to) \<and>
         tokenApprovals s1 = (if prev \<noteq> 0 then (tokenApprovals s)(tid := 0) else tokenApprovals s) \<and>
         operatorApprovals s1 = operatorApprovals s \<and>
         giftCardListings s1 = giftCardListings s \<and>
         giftCardListingCounter s1 = giftCardListingCounter s"
  using assms
  by (auto simp: update721_def Let_def split: if_splits)

lemma transferFrom_Inr:
  assumes "transferFrom sender frm to tid s = Inr s1"
  shows "to \<noteq> 0 \<and> owners s tid = frm \<and> (sender \<noteq> 0 \<longrightarrow> isAuthorized s frm sender tid) \<and>
         owners s1 = (owners s)(tid := to) \<and>
         tokenApprovals s1 = (if frm \<noteq> 0 then (tokenApprovals s)(tid := 0) else tokenApprovals s) \<and>
         operatorApprovals s1 = operatorApprovals s \<and>
         giftCardListings s1 = giftCardListings s \<and>
         giftCardListingCounter s1 = giftCardListingCounter s"
proof -
  from assms obtain prev where u: "update721 to tid sender s = Inr (s1, prev)"
    and p: "prev = frm" and t: "to \<noteq> 0"
    by (auto simp: transferFrom_def split: if_splits sum.splits prod.splits)
  from update721_Inr[OF u] p t show ?thesis by auto
qed

lemma safeMint_Inr:
  assumes "safeMint en to tid s = Inr s1"
  shows "to \<noteq> 0 \<and> owners s tid = 0 \<and> acceptsNFT en to \<and>
         owners s1 = (owners s)(tid := to) \<and>
         tokenApprovals s1 = tokenApprovals s \<and>
         operatorApprovals s1 = operatorApprovals s \<and>
         giftCardListings s1 = giftCardListings s"
proof -
  from assms obtain prev where u: "update721 to tid 0 s = Inr (s1, prev)"
    and p: "prev = 0" and t: "to \<noteq> 0" and a: "acceptsNFT en to"
    by (auto simp: safeMint_def split: if_splits sum.splits prod.splits)
  from update721_Inr[OF u] p t a show ?thesis by auto
qed

lemma safeTransferFrom20_Inr:
  assumes "safeTransferFrom20 en token spender frm to val s = Inr s1"
  shows "owners s1 = owners s \<and> tokenApprovals s1 = tokenApprovals s \<and>
         operatorApprovals s1 = operatorApprovals s \<and> giftCardListings s1 = giftCardListings s \<and>
         tokenIdCounter s1 = tokenIdCounter s"
  using assms
  by (auto simp: safeTransferFrom20_def spendAllowance_def erc20Update_def Let_def
      split: sum.splits if_splits)

lemma createGiftCard_Inr:
  assumes "createGiftCard en c uri tok amt s = Inr (s1, tid)"
  shows "c \<noteq> 0 \<and> owners s tid = 0 \<and> tid = tokenIdCounter s \<and>
         owners s1 = (owners s)(tid := c) \<and>
         tokenApprovals s1 = tokenApprovals s \<and>
         operatorApprovals s1 = operatorApprovals s \<and>
         giftCardListings s1 = giftCardListings s"
proof -
  from assms obtain sa sb where
    a: "safeTransferFrom20 en tok (nftAddr en) c (nftAddr en) amt s = Inr sa" and
    b: "safeMint en c (tokenIdCounter sa) (sa\<lparr>tokenIdCounter := tokenIdCounter sa + 1\<rparr>) = Inr sb" and
    t: "tid = tokenIdCounter sa" and
    e: "owners s1 = owners sb \<and> tokenApprovals s1 = tokenApprovals sb \<and>
        operatorApprovals s1 = operatorApprovals sb \<and> giftCardListings s1 = giftCardListings sb"
    by (auto simp: createGiftCard_def Let_def split: if_splits sum.splits)
  from safeTransferFrom20_Inr[OF a] safeMint_Inr[OF b] t e show ?thesis by auto
qed

lemma createGiftCard_deposit:
  assumes "createGiftCard en creator uri tok amt s = Inr (s1, tid)"
  shows "owners s1 tid = creator \<and> creator \<noteq> 0 \<and> tok \<noteq> 0 \<and> amt \<noteq> 0 \<and> isERC20 en tok \<and>
         vaults s1 tid = \<lparr>tokenAddress = tok, amount = amt, liquidated = False\<rparr> \<and>
         amt \<le> erc20Balances s tok creator \<and>
         erc20Balances s1 =
           (erc20Balances s)(tok :=
              ((erc20Balances s tok)(creator := erc20Balances s tok creator - amt))
              (nftAddr en := ((erc20Balances s tok)(creator := erc20Balances s tok creator - amt))
                               (nftAddr en) + amt)) \<and>
         events s1 = events s @ [GiftCardCreated tid creator tok amt]"
proof -
  from assms have g: "tok \<noteq> 0" "amt \<noteq> 0" "isERC20 en tok" "amt \<le> erc20Balances s tok creator"
    by (auto simp: createGiftCard_def not_less split: if_splits)
  from assms g obtain sa sb where
    a: "safeTransferFrom20 en tok (nftAddr en) creator (nftAddr en) amt s = Inr sa" and
    b: "safeMint en creator (tokenIdCounter sa) (sa\<lparr>tokenIdCounter := tokenIdCounter sa + 1\<rparr>) = Inr sb" and
    t: "tid = tokenIdCounter sa" and
    e: "s1 = sb\<lparr>tokenURIs := (tokenURIs sb)(tid := uri),
                vaults := (vaults sb)(tid := \<lparr>tokenAddress = tok, amount = amt, liquidated = False\<rparr>),
                events := events sb @ [GiftCardCreated tid creator tok amt]\<rparr>"
    by (auto simp: createGiftCard_def Let_def split: if_splits sum.splits)
  from a have ba: "erc20Balances sa =
           (erc20Balances s)(tok :=
              ((erc20Balances s tok)(creator := erc20Balances s tok creator - amt))
              (nftAddr en := ((erc20Balances s tok)(creator := erc20Balances s tok creator - amt))
                               (nftAddr en) + amt))"
    and ea: "events sa = events s"
    by (auto simp: safeTransferFrom20_def spendAllowance_def erc20Update_def Let_def
        split: if_splits sum.splits)
  from b have bb: "erc20Balances sb = erc20Balances sa" and eb: "events sb = events sa"
    and ob: "owners sb = (owners sa)(tokenIdCounter sa := creator)" and c0: "creator \<noteq> 0"
    by (auto simp: safeMint_def update721_def Let_def split: if_splits sum.splits prod.splits)
  from g ba ea bb eb ob c0 t show ?thesis by (simp add: e)
qed


lemma listGiftCard_Inr:
  assumes "listGiftCard en c tid prc s = Inr (s1, lid)"
  shows "mktAddr en \<noteq> 0 \<and> owners s tid = c \<and> tokenApprovals s tid = mktAddr en \<and>
         lid = giftCardListingCounter s \<and> lid \<noteq> - 1 \<and>
         owners s1 = (owners s)(tid := mktAddr en) \<and>
         tokenApprovals s1 = (if c \<noteq> 0 then (tokenApprovals s)(tid := 0) else tokenApprovals s) \<and>
         operatorApprovals s1 = operatorApprovals s \<and>
         giftCardListingCounter s1 = lid + 1 \<and>
         giftCardListings s1 = (giftCardListings s)(lid :=
            \<lparr>GiftCardListing.listingId = lid, tokenId = tid, seller = c, price = prc, active = True\<rparr>)"
proof -
  from assms obtain sa where
    t: "transferFrom (mktAddr en) c (mktAddr en) tid s = Inr sa" and
    o: "owners s tid = c" "tokenApprovals s tid = mktAddr en" and
    l: "lid = giftCardListingCounter sa" "lid \<noteq> - 1" and
    e: "owners s1 = owners sa \<and> tokenApprovals s1 = tokenApprovals sa \<and>
        operatorApprovals s1 = operatorApprovals sa \<and> giftCardListingCounter s1 = lid + 1 \<and>
        giftCardListings s1 = (giftCardListings sa)(lid :=
            \<lparr>GiftCardListing.listingId = lid, tokenId = tid, seller = c, price = prc, active = True\<rparr>)"
    by (auto simp: listGiftCard_def ownerOf_def getApproved_def Let_def split: if_splits sum.splits)
  from transferFrom_Inr[OF t] o l e show ?thesis by auto
qed

lemma purchaseGiftCard_Inr:
  assumes "purchaseGiftCard en c val lid s = Inr s1"
  shows "c \<noteq> 0 \<and> active (giftCardListings s lid) \<and>
         owners s (tokenId (giftCardListings s lid)) = mktAddr en \<and>
         owners s1 = (owners s)(tokenId (giftCardListings s lid) := c) \<and>
         tokenApprovals s1 = (if mktAddr en \<noteq> 0
            then (tokenApprovals s)(tokenId (giftCardListings s lid) := 0) else tokenApprovals s) \<and>
         operatorApprovals s1 = operatorApprovals s \<and>
         giftCardListingCounter s1 = giftCardListingCounter s \<and>
         giftCardListings s1 = (giftCardListings s)(lid := (giftCardListings s lid)\<lparr>active := False\<rparr>)"
proof -
  let ?l = "giftCardListings s lid"
  let ?s0 = "payNative c (mktAddr en) val s"
  let ?sa = "?s0\<lparr>giftCardListings := (giftCardListings ?s0)(lid := ?l\<lparr>active := False\<rparr>)\<rparr>"
  from assms obtain sb where
    a: "active ?l" and
    t: "transferFrom (mktAddr en) (mktAddr en) c (tokenId ?l) ?sa = Inr sb" and
    e: "owners s1 = owners sb \<and> tokenApprovals s1 = tokenApprovals sb \<and>
        operatorApprovals s1 = operatorApprovals sb \<and>
        giftCardListingCounter s1 = giftCardListingCounter sb \<and>
        giftCardListings s1 = giftCardListings sb"
    by (auto simp: purchaseGiftCard_def payNative_def Let_def split: if_splits sum.splits)
  from transferFrom_Inr[OF t] a e show ?thesis by (auto simp: payNative_def Let_def)
qed

lemma cancelGiftCardListing_Inr:
  assumes "cancelGiftCardListing en c lid s = Inr s1"
  shows "c \<noteq> 0 \<and> active (giftCardListings s lid) \<and> seller (giftCardListings s lid) = c \<and>
         owners s (tokenId (giftCardListings s lid)) = mktAddr en \<and>
         owners s1 = (owners s)(tokenId (giftCardListings s lid) := c) \<and>
         tokenApprovals s1 = (if mktAddr en \<noteq> 0
            then (tokenApprovals s)(tokenId (giftCardListings s lid) := 0) else tokenApprovals s) \<and>
         operatorApprovals s1 = operatorApprovals s \<and>
         giftCardListingCounter s1 = giftCardListingCounter s \<and>
         giftCardListings s1 = (giftCardListings s)(lid := (giftCardListings s lid)\<lparr>active := False\<rparr>)"
proof -
  let ?l = "giftCardListings s lid"
  let ?sa = "s\<lparr>giftCardListings := (giftCardListings s)(lid := ?l\<lparr>active := False\<rparr>)\<rparr>"
  from assms obtain sb where
    a: "active ?l" "seller ?l = c" and
    t: "transferFrom (mktAddr en) (mktAddr en) c (tokenId ?l) ?sa = Inr sb" and
    e: "owners s1 = owners sb \<and> tokenApprovals s1 = tokenApprovals sb \<and>
        operatorApprovals s1 = operatorApprovals sb \<and>
        giftCardListingCounter s1 = giftCardListingCounter sb \<and>
        giftCardListings s1 = giftCardListings sb"
    by (auto simp: cancelGiftCardListing_def Let_def split: if_splits sum.splits)
  from transferFrom_Inr[OF t] a e show ?thesis by auto
qed

lemma escrowInv_cong:
  assumes "owners s1 = owners s" "tokenApprovals s1 = tokenApprovals s"
    "operatorApprovals s1 = operatorApprovals s" "giftCardListings s1 = giftCardListings s"
  shows "escrowInv en s1 = escrowInv en s"
  by (simp add: escrowInv_def assms)

lemma other_steps_escrow_fields:
  assumes "step en c x s = Inr s1"
    and "x = Liquidate t \<or> x = CreateArtistListing h p \<or> x = PurchaseArtistDesign l v \<or>
         x = CancelArtistListing l \<or> x = Outside b a n"
  shows "owners s1 = owners s \<and> tokenApprovals s1 = tokenApprovals s \<and>
    operatorApprovals s1 = operatorApprovals s \<and> giftCardListings s1 = giftCardListings s"
  using assms
  by (auto simp: liquidate_def liquidateChecks_def liquidatePayout_def safeTransfer_def
      erc20Update_def createArtistListing_def purchaseArtistDesign_def
      purchaseArtistDesignChecks_def purchaseArtistDesignPayout_def payNative_def
      cancelArtistListing_def Let_def split: if_splits sum.splits)

lemma escrowInv_approve:
  assumes i: "escrowInv en s" and c: "senderOk en c" and st: "approve c to tid s = Inr s1"
  shows "escrowInv en s1"
proof -
  from st have o: "owners s tid \<noteq> 0"
    and a: "owners s tid = c \<or> operatorApprovals s (owners s tid) c"
    and e: "s1 = s\<lparr>tokenApprovals := (tokenApprovals s)(tid := to)\<rparr>"
    using c by (auto simp: approve_def ownerOf_def senderOk_def split: if_splits)
  from i have op: "\<not> operatorApprovals s (mktAddr en) c"
    by (simp add: escrowInv_def)
  from c have "c \<noteq> mktAddr en" by (simp add: senderOk_def)
  with a op have "owners s tid \<noteq> mktAddr en" by auto
  with i o show ?thesis
    unfolding e escrowInv_def by auto
qed

lemma escrowInv_setApprovalForAll:
  assumes i: "escrowInv en s" and c: "senderOk en c" and st: "setApprovalForAll c operator approved s = Inr s1"
  shows "escrowInv en s1"
proof -
  from st have e: "s1 = s\<lparr>operatorApprovals :=
       (operatorApprovals s)(c := (operatorApprovals s c)(operator := approved))\<rparr>"
    by (auto simp: setApprovalForAll_def split: if_splits)
  from i c show ?thesis
    unfolding e escrowInv_def senderOk_def by auto
qed

lemma escrowInv_transferFrom:
  assumes i: "escrowInv en s" and c: "senderOk en c" and st: "transferFrom c frm to tid s = Inr s1"
  shows "escrowInv en s1"
proof -
  note f = transferFrom_Inr[OF st]
  from c have c0: "c \<noteq> 0" and cm: "c \<noteq> mktAddr en" by (simp_all add: senderOk_def)
  from f c0 have au: "isAuthorized s frm c tid" and ow: "owners s tid = frm" and to: "to \<noteq> 0"
    by auto
  from i have ap: "owners s tid = mktAddr en \<or> owners s tid = 0 \<Longrightarrow> tokenApprovals s tid = 0"
    and op: "\<not> operatorApprovals s (mktAddr en) c" "\<not> operatorApprovals s 0 c"
    by (auto simp: escrowInv_def)
  from au ow ap op c0 cm have fr: "frm \<noteq> mktAddr en" "frm \<noteq> 0"
    by (auto simp: isAuthorized_def)
  have o1: "owners s1 = (owners s)(tid := to)"
    and t1: "tokenApprovals s1 = (tokenApprovals s)(tid := 0)"
    and p1: "operatorApprovals s1 = operatorApprovals s"
    and g1: "giftCardListings s1 = giftCardListings s"
    using f fr by simp_all
  from i have i1: "\<And>lid. active (giftCardListings s lid) \<Longrightarrow>
       owners s (tokenId (giftCardListings s lid)) = mktAddr en"
    by (simp add: escrowInv_def)
  have "\<forall>lid. active (giftCardListings s lid) \<longrightarrow> tokenId (giftCardListings s lid) \<noteq> tid"
    using i1 ow fr by metis
  with i to show ?thesis
    unfolding escrowInv_def o1 t1 p1 g1 by auto
qed

lemma escrowInv_createGiftCard:
  assumes i: "escrowInv en s" and m: "mktAddr en \<noteq> 0"
    and st: "createGiftCard en c uri tok amt s = Inr (s1, tid)"
  shows "escrowInv en s1"
proof -
  note f = createGiftCard_Inr[OF st]
  from i have i1: "\<And>lid. active (giftCardListings s lid) \<Longrightarrow>
       owners s (tokenId (giftCardListings s lid)) = mktAddr en"
    by (simp add: escrowInv_def)
  have n: "\<forall>lid. active (giftCardListings s lid) \<longrightarrow> tokenId (giftCardListings s lid) \<noteq> tid"
    using i1 f m by metis
  have o1: "owners s1 = (owners s)(tid := c)"
    and t1: "tokenApprovals s1 = tokenApprovals s"
    and p1: "operatorApprovals s1 = operatorApprovals s"
    and g1: "giftCardListings s1 = giftCardListings s"
    using f by simp_all
  from f have "tokenApprovals s tid = 0" using i by (auto simp: escrowInv_def)
  with i n f show ?thesis
    unfolding escrowInv_def o1 t1 p1 g1 by auto
qed

lemma escrowInv_listGiftCard:
  assumes i: "escrowInv en s" and c: "senderOk en c"
    and st: "listGiftCard en c tid prc s = Inr (s1, lid)"
  shows "escrowInv en s1"
proof -
  note f = listGiftCard_Inr[OF st]
  from c have c0: "c \<noteq> 0" and cm: "c \<noteq> mktAddr en" by (simp_all add: senderOk_def)
  from i have i1: "\<And>l. active (giftCardListings s l) \<Longrightarrow>
       owners s (tokenId (giftCardListings s l)) = mktAddr en"
    and i2: "\<And>l1 l2. active (giftCardListings s l1) \<Longrightarrow> active (giftCardListings s l2) \<Longrightarrow>
              tokenId (giftCardListings s l1) = tokenId (giftCardListings s l2) \<Longrightarrow> l1 = l2"
    and i3: "\<And>a. \<not> operatorApprovals s (mktAddr en) a \<and> \<not> operatorApprovals s 0 a"
    and i4: "\<And>t. owners s t = mktAddr en \<or> owners s t = 0 \<Longrightarrow> tokenApprovals s t = 0"
    by (auto simp: escrowInv_def)
  have n: "\<And>l. active (giftCardListings s l) \<Longrightarrow> tokenId (giftCardListings s l) \<noteq> tid"
    using i1 f cm by metis
  have o1: "owners s1 = (owners s)(tid := mktAddr en)"
    and t1: "tokenApprovals s1 = (tokenApprovals s)(tid := 0)"
    and p1: "operatorApprovals s1 = operatorApprovals s"
    and g1: "giftCardListings s1 = (giftCardListings s)(lid :=
            \<lparr>GiftCardListing.listingId = lid, tokenId = tid, seller = c, price = prc, active = True\<rparr>)"
    using f c0 by simp_all
  show ?thesis
    unfolding escrowInv_def o1 t1 p1 g1
    using i1 i2 i3 i4 n f by (intro conjI allI impI) (auto split: if_splits)
qed

lemma escrowInv_settle:
  assumes i: "escrowInv en s" and c: "senderOk en c" and m: "mktAddr en \<noteq> 0"
    and a: "active (giftCardListings s lid)"
    and o1: "owners s1 = (owners s)(tokenId (giftCardListings s lid) := c)"
    and t1: "tokenApprovals s1 = (tokenApprovals s)(tokenId (giftCardListings s lid) := 0)"
    and p1: "operatorApprovals s1 = operatorApprovals s"
    and g1: "giftCardListings s1 = (giftCardListings s)(lid := (giftCardListings s lid)\<lparr>active := False\<rparr>)"
  shows "escrowInv en s1"
proof -
  from c have c0: "c \<noteq> 0" and cm: "c \<noteq> mktAddr en" by (simp_all add: senderOk_def)
  from i have i1: "\<And>l. active (giftCardListings s l) \<Longrightarrow>
       owners s (tokenId (giftCardListings s l)) = mktAddr en"
    and i2: "\<And>l1 l2. active (giftCardListings s l1) \<Longrightarrow> active (giftCardListings s l2) \<Longrightarrow>
              tokenId (giftCardListings s l1) = tokenId (giftCardListings s l2) \<Longrightarrow> l1 = l2"
    and i3: "\<And>a. \<not> operatorApprovals s (mktAddr en) a \<and> \<not> operatorApprovals s 0 a"
    and i4: "\<And>t. owners s t = mktAddr en \<or> owners s t = 0 \<Longrightarrow> tokenApprovals s t = 0"
    by (auto simp: escrowInv_def)
  have n: "\<And>l. active (giftCardListings s l) \<Longrightarrow> l \<noteq> lid \<Longrightarrow>
      tokenId (giftCardListings s l) \<noteq> tokenId (giftCardListings s lid)"
    using i2 a by blast
  show ?thesis
    unfolding escrowInv_def o1 t1 p1 g1
    using i1 i2 i3 i4 n c0 cm by (intro conjI allI impI) (auto split: if_splits)
qed

lemma step_escrowInv:
  assumes i: "escrowInv en s" and m: "mktAddr en \<noteq> 0" and c: "senderOk en c"
    and st: "step en c x s = Inr s1"
  shows "escrowInv en s1"
proof (cases x)
  case (CreateGiftCard uri tok amt)
  with st obtain tid where "createGiftCard en c uri tok amt s = Inr (s1, tid)"
    by (cases "createGiftCard en c uri tok amt s") auto
  then show ?thesis using i m by (rule escrowInv_createGiftCard[rotated 2])
next
  case (Approve to tid)
  with st i c show ?thesis by (auto intro: escrowInv_approve)
next
  case (SetApprovalForAll operator approved)
  with st i c show ?thesis by (auto intro: escrowInv_setApprovalForAll)
next
  case (TransferFrom frm to tid)
  with st i c show ?thesis by (auto intro: escrowInv_transferFrom)
next
  case (SafeTransferFrom frm to tid)
  with st have "transferFrom c frm to tid s = Inr s1"
    by (auto simp: safeTransferFrom_def split: sum.splits if_splits)
  with i c show ?thesis by (auto intro: escrowInv_transferFrom)
next
  case (ListGiftCard tid prc)
  with st obtain lid where "listGiftCard en c tid prc s = Inr (s1, lid)"
    by (cases "listGiftCard en c tid prc s") auto
  with i c show ?thesis by (auto intro: escrowInv_listGiftCard)
next
  case (PurchaseGiftCard lid val)
  with st have "purchaseGiftCard en c val lid s = Inr s1" by simp
  from purchaseGiftCard_Inr[OF this] m show ?thesis
    by (intro escrowInv_settle[OF i c m, of lid]) simp_all
next
  case (CancelGiftCardListing lid)
  with st have "cancelGiftCardListing en c lid s = Inr s1" by simp
  from cancelGiftCardListing_Inr[OF this] m show ?thesis
    by (intro escrowInv_settle[OF i c m, of lid]) simp_all
next
  case (Liquidate t)
  from other_steps_escrow_fields[OF st, of t] Liquidate i show ?thesis
    by (simp add: escrowInv_cong[of s1 s])
next
  case (CreateArtistListing h p)
  from other_steps_escrow_fields[OF st, of _ h p] CreateArtistListing i show ?thesis
    by (simp add: escrowInv_cong[of s1 s])
next
  case (PurchaseArtistDesign l v)
  from other_steps_escrow_fields[OF st, of _ _ _ l v] PurchaseArtistDesign i show ?thesis
    by (simp add: escrowInv_cong[of s1 s])
next
  case (CancelArtistListing l)
  from other_steps_escrow_fields[OF st, of _ _ _ l] CancelArtistListing i show ?thesis
    by (simp add: escrowInv_cong[of s1 s])
next
  case (Outside b a n)
  from other_steps_escrow_fields[OF st, of _ _ _ _ _ b a n] Outside i show ?thesis
    by (simp add: escrowInv_cong[of s1 s])
qed

section \<open>Counters, fresh slots and vault contents, call by call\<close>

lemma less_counter_succ:
  fixes lid c :: uint256
  assumes "lid < c" and "c \<noteq> - 1"
  shows "lid < c + 1"
proof -
  from assms(2) have "c < c + 1"
    using inc_less_eq_self_iff_eq[of c] by (simp add: not_le)
  with assms(1) show ?thesis by (rule less_trans)
qed

lemma counter_succ_le:
  fixes lid c :: uint256
  assumes "c + 1 \<le> lid" and "c \<noteq> - 1"
  shows "c \<le> lid \<and> lid \<noteq> c"
  using assms by (auto simp: inc_less_eq_iff)

lemma step_artist_inactive:
  assumes "lid < artistListingCounter s" and "\<not> ArtistListing.active (artistListings s lid)"
    and "step en c x s = Inr s1"
  shows "lid < artistListingCounter s1 \<and> \<not> ArtistListing.active (artistListings s1 lid)"
  using assms
  by (cases x)
     (auto simp: op_defs base_defs Let_def less_counter_succ split: if_splits sum.splits prod.splits)

lemma step_giftCard_inactive:
  assumes "lid < giftCardListingCounter s" and "\<not> active (giftCardListings s lid)"
    and "step en c x s = Inr s1"
  shows "lid < giftCardListingCounter s1 \<and> \<not> active (giftCardListings s1 lid)"
  using assms
  by (cases x)
     (auto simp: op_defs base_defs Let_def less_counter_succ split: if_splits sum.splits prod.splits)

lemma step_artist_fresh:
  assumes "artistListingCounter s \<le> lid \<longrightarrow> artistListings s lid = zeroArtistListing"
    and "step en c x s = Inr s1"
  shows "artistListingCounter s1 \<le> lid \<longrightarrow> artistListings s1 lid = zeroArtistListing"
  using assms
  by (cases x)
     (auto simp: op_defs base_defs Let_def zeroArtistListing_def zeroGiftCardListing_def
        dest: counter_succ_le split: if_splits sum.splits prod.splits)

lemma step_giftCard_fresh:
  assumes "giftCardListingCounter s \<le> lid \<longrightarrow> giftCardListings s lid = zeroGiftCardListing"
    and "step en c x s = Inr s1"
  shows "giftCardListingCounter s1 \<le> lid \<longrightarrow> giftCardListings s1 lid = zeroGiftCardListing"
  using assms
  by (cases x)
     (auto simp: op_defs base_defs Let_def zeroArtistListing_def zeroGiftCardListing_def
        dest: counter_succ_le split: if_splits sum.splits prod.splits)

lemma step_unminted_vault:
  assumes "owners s tid = 0 \<longrightarrow> vaults s tid = zeroVault"
    and "step en c x s = Inr s1"
  shows "owners s1 tid = 0 \<longrightarrow> vaults s1 tid = zeroVault"
  using assms
  by (cases x)
     (auto simp: op_defs base_defs Let_def split: if_splits sum.splits prod.splits)

lemma step_vault_frame:
  assumes "owners s tid \<noteq> 0" and "step en c x s = Inr s1"
  shows "owners s1 tid \<noteq> 0 \<and>
         tokenAddress (vaults s1 tid) = tokenAddress (vaults s tid) \<and>
         amount (vaults s1 tid) = amount (vaults s tid) \<and>
         (liquidated (vaults s tid) \<longrightarrow> liquidated (vaults s1 tid))"
  using assms
  by (cases x)
     (auto simp: op_defs base_defs Let_def split: if_splits sum.splits prod.splits)

section \<open>Sequences of transactions\<close>

lemma exec_cases: "exec en c x s = s \<or> step en c x s = Inr (exec en c x s)"
  by (cases "step en c x s") (simp_all add: exec_def)

lemma run_invariant:
  assumes "P s"
    and "\<And>s c x s1. P s \<Longrightarrow> Q c \<Longrightarrow> step en c x s = Inr s1 \<Longrightarrow> P s1"
    and "list_all (\<lambda>(c, x). Q c) xs"
  shows "P (run en xs s)"
  using assms(1,3)
proof (induction xs arbitrary: s)
  case Nil
  then show ?case by simp
next
  case (Cons cx xs)
  obtain c x where cx: "cx = (c, x)" by (cases cx)
  from Cons.prems(2) cx have q: "Q c" and r: "list_all (\<lambda>(c, x). Q c) xs" by simp_all
  have "P (exec en c x s)"
    using exec_cases[of en c x s] Cons.prems(1) q assms(2) by metis
  from Cons.IH[OF this r] cx show ?case by simp
qed

lemma run_invariant_any:
  assumes "P s"
    and "\<And>s c x s1. P s \<Longrightarrow> step en c x s = Inr s1 \<Longrightarrow> P s1"
  shows "P (run en xs s)"
proof (rule run_invariant[where Q = "\<lambda>_. True"])
  show "list_all (\<lambda>(c, x). True) xs" by (induction xs) auto
qed (use assms in auto)

lemma deployed_escrowInv: "escrowInv en (deployed b a n)"
  by (simp add: escrowInv_def deployed_def zeroGiftCardListing_def)

lemma run_escrowInv:
  assumes "mktAddr en \<noteq> 0" and "sendersOk en xs"
  shows "escrowInv en (run en xs (deployed b a n))"
proof (rule run_invariant[where Q = "senderOk en"])
  show "escrowInv en (deployed b a n)" by (rule deployed_escrowInv)
  show "list_all (\<lambda>(c, x). senderOk en c) xs" using assms(2) by (simp add: sendersOk_def)
  show "\<And>s c x s1. escrowInv en s \<Longrightarrow> senderOk en c \<Longrightarrow> step en c x s = Inr s1 \<Longrightarrow>
      escrowInv en s1"
    using assms(1) by (rule step_escrowInv[rotated])
qed

lemma run_vault_frame:
  assumes "owners s tid \<noteq> 0"
  shows "owners (run en xs s) tid \<noteq> 0 \<and>
         tokenAddress (vaults (run en xs s) tid) = tokenAddress (vaults s tid) \<and>
         amount (vaults (run en xs s) tid) = amount (vaults s tid) \<and>
         (liquidated (vaults s tid) \<longrightarrow> liquidated (vaults (run en xs s) tid))"
proof (rule run_invariant_any[where P = "\<lambda>r. owners r tid \<noteq> 0 \<and>
         tokenAddress (vaults r tid) = tokenAddress (vaults s tid) \<and>
         amount (vaults r tid) = amount (vaults s tid) \<and>
         (liquidated (vaults s tid) \<longrightarrow> liquidated (vaults r tid))"])
  show "owners s tid \<noteq> 0 \<and> tokenAddress (vaults s tid) = tokenAddress (vaults s tid) \<and>
    amount (vaults s tid) = amount (vaults s tid) \<and>
    (liquidated (vaults s tid) \<longrightarrow> liquidated (vaults s tid))"
    using assms by simp
next
  fix r c x r1
  assume p: "owners r tid \<noteq> 0 \<and> tokenAddress (vaults r tid) = tokenAddress (vaults s tid) \<and>
    amount (vaults r tid) = amount (vaults s tid) \<and>
    (liquidated (vaults s tid) \<longrightarrow> liquidated (vaults r tid))"
    and st: "step en c x r = Inr r1"
  from p have "owners r tid \<noteq> 0" by simp
  from step_vault_frame[OF this st] p
  show "owners r1 tid \<noteq> 0 \<and> tokenAddress (vaults r1 tid) = tokenAddress (vaults s tid) \<and>
    amount (vaults r1 tid) = amount (vaults s tid) \<and>
    (liquidated (vaults s tid) \<longrightarrow> liquidated (vaults r1 tid))"
    by simp
qed

lemma run_artist_inactive:
  assumes "lid < artistListingCounter s" and "\<not> ArtistListing.active (artistListings s lid)"
  shows "lid < artistListingCounter (run en xs s) \<and>
         \<not> ArtistListing.active (artistListings (run en xs s) lid)"
  by (rule run_invariant_any[where P = "\<lambda>r. lid < artistListingCounter r \<and>
         \<not> ArtistListing.active (artistListings r lid)"])
     (use assms step_artist_inactive in blast)+

lemma run_giftCard_inactive:
  assumes "lid < giftCardListingCounter s" and "\<not> active (giftCardListings s lid)"
  shows "lid < giftCardListingCounter (run en xs s) \<and>
         \<not> active (giftCardListings (run en xs s) lid)"
  by (rule run_invariant_any[where P = "\<lambda>r. lid < giftCardListingCounter r \<and>
         \<not> active (giftCardListings r lid)"])
     (use assms step_giftCard_inactive in blast)+

lemma run_artist_fresh:
  "artistListingCounter (run en xs (deployed b a n)) \<le> lid \<longrightarrow>
     artistListings (run en xs (deployed b a n)) lid = zeroArtistListing"
  by (rule run_invariant_any[where P = "\<lambda>r. artistListingCounter r \<le> lid \<longrightarrow>
         artistListings r lid = zeroArtistListing"])
     (use step_artist_fresh in \<open>auto simp: deployed_def\<close>)

lemma run_giftCard_fresh:
  "giftCardListingCounter (run en xs (deployed b a n)) \<le> lid \<longrightarrow>
     giftCardListings (run en xs (deployed b a n)) lid = zeroGiftCardListing"
  by (rule run_invariant_any[where P = "\<lambda>r. giftCardListingCounter r \<le> lid \<longrightarrow>
         giftCardListings r lid = zeroGiftCardListing"])
     (use step_giftCard_fresh in \<open>auto simp: deployed_def\<close>)

lemma run_unminted_vault:
  "owners (run en xs (deployed b a n)) tid = 0 \<longrightarrow>
     vaults (run en xs (deployed b a n)) tid = zeroVault"
  by (rule run_invariant_any[where P = "\<lambda>r. owners r tid = 0 \<longrightarrow> vaults r tid = zeroVault"])
     (use step_unminted_vault in \<open>auto simp: deployed_def\<close>)

section \<open>Properties of the specification\<close>

text \<open>
  C1, as stated, does not hold: in the small world account 1 redeems token 0
  successfully, and a second redeem by account 2, who does not own the token, is
  refused with \<open>NotTokenOwner\<close>, not with \<open>AlreadyLiquidated\<close>, because the ownership
  check comes first.
\<close>

theorem liquidate_second_call_counterexample:
  "\<not> isl (liquidate exampleEnv 1 0 exampleMinted) \<and>
   liquidate exampleEnv 2 0 (exec exampleEnv 1 (Liquidate 0) exampleMinted) = Inl NotTokenOwner \<and>
   liquidate exampleEnv 2 0 (exec exampleEnv 1 (Liquidate 0) exampleMinted) \<noteq> Inl AlreadyLiquidated"
  by (simp add: example_defs op_defs base_defs Let_def)

text \<open>
  C1, amended: redeem succeeds at most once, and it pays the originally deposited
  amount exactly once.  Let token \<open>tid\<close> be created by \<open>createGiftCard\<close> with a deposit
  of \<open>amt\<close> units of asset \<open>tok\<close> (the creation moves exactly \<open>amt\<close> from the creator
  to the token contract), let any transactions \<open>xs\<close> follow, and let \<open>liquidate\<close> then
  succeed for \<open>sender\<close>.  Then the vault still holds asset \<open>tok\<close> and amount \<open>amt\<close>;
  the liquidated flag is set in the state in which the payout runs; the asset ledger
  changes by exactly one transfer of \<open>amt\<close> from the token contract to the sender, with
  one \<open>GiftCardLiquidated\<close> record of that amount; and every later redeem of the same
  token fails, whatever transactions \<open>ys\<close> happen in between: with \<open>AlreadyLiquidated\<close>
  for the owner of the token at that time and with \<open>NotTokenOwner\<close> for anyone else.
\<close>

theorem liquidate_once:
  assumes "createGiftCard en creator uri tok amt s = Inr (s', tid)"
    and "r = run en xs s'"
    and "liquidate en sender tid r = Inr r1"
  shows "amt \<le> erc20Balances s tok creator \<and>
         erc20Balances s' =
           (erc20Balances s)(tok :=
              ((erc20Balances s tok)(creator := erc20Balances s tok creator - amt))
              (nftAddr en := ((erc20Balances s tok)(creator := erc20Balances s tok creator - amt))
                               (nftAddr en) + amt)) \<and>
         tokenAddress (vaults r tid) = tok \<and> amount (vaults r tid) = amt \<and>
         (\<exists>r0. liquidateChecks sender tid r = Inr r0 \<and> liquidated (vaults r0 tid) \<and>
               liquidatePayout en sender tid r0 = Inr r1) \<and>
         amt \<le> erc20Balances r tok (nftAddr en) \<and>
         erc20Balances r1 =
           (erc20Balances r)(tok :=
              ((erc20Balances r tok)(nftAddr en := erc20Balances r tok (nftAddr en) - amt))
              (sender := ((erc20Balances r tok)(nftAddr en := erc20Balances r tok (nftAddr en) - amt))
                           sender + amt)) \<and>
         events r1 = events r @ [GiftCardLiquidated tid sender amt] \<and>
         liquidate en c tid r1 = Inl (if c = sender then AlreadyLiquidated else NotTokenOwner) \<and>
         liquidate en c tid (run en ys r1) =
           Inl (if c = owners (run en ys r1) tid then AlreadyLiquidated else NotTokenOwner)"
proof -
  note d = createGiftCard_deposit[OF assms(1)]
  from d have m': "owners s' tid \<noteq> 0" by simp
  from run_vault_frame[OF m', of en xs] d assms(2)
  have v: "tokenAddress (vaults r tid) = tok" "amount (vaults r tid) = amt"
    by simp_all
  from assms(3) obtain r0 where ch: "liquidateChecks sender tid r = Inr r0"
    and pa: "liquidatePayout en sender tid r0 = Inr r1"
    by (auto simp: liquidate_def split: sum.splits)
  from ch have ow: "owners r tid = sender" "sender \<noteq> 0"
    and r0: "r0 = r\<lparr>vaults := (vaults r)(tid := (vaults r tid)\<lparr>liquidated := True\<rparr>)\<rparr>"
    by (auto simp: liquidateChecks_def ownerOf_def split: if_splits)
  from pa v have bal: "amt \<le> erc20Balances r tok (nftAddr en)"
    by (auto simp: r0 liquidatePayout_def safeTransfer_def erc20Update_def Let_def not_less
        split: if_splits sum.splits)
  from pa v have r1: "r1 = r0\<lparr>erc20Balances :=
       (erc20Balances r)(tok :=
              ((erc20Balances r tok)(nftAddr en := erc20Balances r tok (nftAddr en) - amt))
              (sender := ((erc20Balances r tok)(nftAddr en := erc20Balances r tok (nftAddr en) - amt))
                           sender + amt)),
       events := events r @ [GiftCardLiquidated tid sender amt]\<rparr>"
    by (auto simp: r0 liquidatePayout_def safeTransfer_def erc20Update_def Let_def
        split: if_splits sum.splits)
  have o1: "owners r1 tid = sender" and l1: "liquidated (vaults r1 tid)"
    using ow by (simp_all add: r1 r0)
  from o1 ow have m1: "owners r1 tid \<noteq> 0" by simp
  note fr = run_vault_frame[OF m1, of en ys]
  have later: "liquidate en c tid q =
      Inl (if c = owners q tid then AlreadyLiquidated else NotTokenOwner)"
    if "owners q tid \<noteq> 0" and "liquidated (vaults q tid)" for q
    using that by (simp add: liquidate_def liquidateChecks_def ownerOf_def)
  have a: "liquidate en c tid r1 = Inl (if c = sender then AlreadyLiquidated else NotTokenOwner)"
    using later[OF m1 l1] o1 by simp
  have b: "liquidate en c tid (run en ys r1) =
           Inl (if c = owners (run en ys r1) tid then AlreadyLiquidated else NotTokenOwner)"
    using later[of "run en ys r1"] fr l1 by simp
  have f: "\<exists>r0. liquidateChecks sender tid r = Inr r0 \<and> liquidated (vaults r0 tid) \<and>
               liquidatePayout en sender tid r0 = Inr r1"
    using ch pa by (auto simp: r0)
  have g: "erc20Balances r1 =
           (erc20Balances r)(tok :=
              ((erc20Balances r tok)(nftAddr en := erc20Balances r tok (nftAddr en) - amt))
              (sender := ((erc20Balances r tok)(nftAddr en := erc20Balances r tok (nftAddr en) - amt))
                           sender + amt))"
    by (simp add: r1)
  have e: "events r1 = events r @ [GiftCardLiquidated tid sender amt]"
    by (simp add: r1)
  from d have d1: "amt \<le> erc20Balances s tok creator" and d2: "erc20Balances s' =
           (erc20Balances s)(tok :=
              ((erc20Balances s tok)(creator := erc20Balances s tok creator - amt))
              (nftAddr en := ((erc20Balances s tok)(creator := erc20Balances s tok creator - amt))
                               (nftAddr en) + amt))"
    by blast+
  from d1 d2 v f bal g e a b show ?thesis by blast
qed

theorem liquidate_once_witness:
  "createGiftCard exampleEnv 1 ''uri'' 7 100 exampleState = Inr (exampleMinted, 0) \<and>
   liquidate exampleEnv 2 0 (run exampleEnv [(1, TransferFrom 1 2 0)] exampleMinted) =
     Inr (exec exampleEnv 2 (Liquidate 0) (run exampleEnv [(1, TransferFrom 1 2 0)] exampleMinted)) \<and>
   erc20Balances exampleState 7 1 = 500 \<and> erc20Balances exampleState 7 100 = 0 \<and>
   erc20Balances exampleMinted 7 1 = 400 \<and> erc20Balances exampleMinted 7 100 = 100 \<and>
   amount (vaults (run exampleEnv [(1, TransferFrom 1 2 0)] exampleMinted) 0) = 100 \<and>
   erc20Balances
     (exec exampleEnv 2 (Liquidate 0) (run exampleEnv [(1, TransferFrom 1 2 0)] exampleMinted))
     7 100 = 0 \<and>
   erc20Balances
     (exec exampleEnv 2 (Liquidate 0) (run exampleEnv [(1, TransferFrom 1 2 0)] exampleMinted))
     7 2 = 100 \<and>
   liquidate exampleEnv 2 0
     (exec exampleEnv 2 (Liquidate 0) (run exampleEnv [(1, TransferFrom 1 2 0)] exampleMinted))
     = Inl AlreadyLiquidated \<and>
   liquidate exampleEnv 1 0
     (exec exampleEnv 2 (Liquidate 0) (run exampleEnv [(1, TransferFrom 1 2 0)] exampleMinted))
     = Inl NotTokenOwner \<and>
   liquidate exampleEnv 1 0
     (run exampleEnv [(2, TransferFrom 2 1 0)]
        (exec exampleEnv 2 (Liquidate 0) (run exampleEnv [(1, TransferFrom 1 2 0)] exampleMinted)))
     = Inl AlreadyLiquidated"
proof -
  let ?r = "run exampleEnv [(1, TransferFrom 1 2 0)] exampleMinted"
  let ?r1 = "exec exampleEnv 2 (Liquidate 0) ?r"
  have h1: "createGiftCard exampleEnv 1 ''uri'' 7 100 exampleState = Inr (exampleMinted, 0)"
    by (simp add: example_defs op_defs base_defs Let_def)
  have h2: "?r = run exampleEnv [(1, TransferFrom 1 2 0)] exampleMinted" by simp
  have h3: "liquidate exampleEnv 2 0 ?r = Inr ?r1"
    by (simp add: example_defs op_defs base_defs Let_def)
  have b: "erc20Balances exampleState 7 1 = 500" "erc20Balances exampleState 7 100 = 0"
    "erc20Balances ?r 7 100 = 100" "erc20Balances ?r 7 2 = 0"
    by (simp_all add: example_defs op_defs base_defs Let_def)
  have o: "owners (run exampleEnv [(2, TransferFrom 2 1 0)] ?r1) 0 = 1"
    by (simp add: example_defs op_defs base_defs Let_def)
  have n: "nftAddr exampleEnv = 100" by (simp add: exampleEnv_def)
  note t1 = liquidate_once[OF h1 h2 h3, of 2 "[]"]
  note t2 = liquidate_once[OF h1 h2 h3, of 1 "[(2, TransferFrom 2 1 0)]"]
  from t1 have m: "erc20Balances exampleMinted 7 1 = 400 \<and> erc20Balances exampleMinted 7 100 = 100"
    using b n by simp
  from t1 have v: "amount (vaults ?r 0) = 100" by blast
  from t1 have p: "erc20Balances ?r1 7 100 = 0 \<and> erc20Balances ?r1 7 2 = 100"
    using b n by simp
  from t1 have a2: "liquidate exampleEnv 2 0 ?r1 = Inl AlreadyLiquidated" by simp
  from t2 have a1: "liquidate exampleEnv 1 0 ?r1 = Inl NotTokenOwner" by simp
  from t2 o have a3: "liquidate exampleEnv 1 0 (run exampleEnv [(2, TransferFrom 2 1 0)] ?r1)
      = Inl AlreadyLiquidated" by simp
  from h1 h3 b m v p a2 a1 a3 show ?thesis by blast
qed

text \<open>
  C2, as stated, does not hold: in the small world the artist of listing 0 refuses
  native payments; a purchase paying the price fails with \<open>TransferFailed\<close>, and after
  the failed call the listing is active, not deactivated, because the revert undoes the
  write to \<open>active\<close> together with everything else.
\<close>

theorem purchaseArtistDesign_failed_payout_counterexample:
  "ArtistListing.active (artistListings exampleArtworkRefusing 0) \<and>
   ArtistListing.price (artistListings exampleArtworkRefusing 0) \<le> 50 \<and>
   purchaseArtistDesign exampleEnv 2 50 0 exampleArtworkRefusing = Inl TransferFailed \<and>
   ArtistListing.active
     (artistListings (exec exampleEnv 2 (PurchaseArtistDesign 0 50) exampleArtworkRefusing) 0)"
  by (simp add: example_defs op_defs base_defs Let_def)

text \<open>
  C2, amended: if \<open>purchaseArtistDesign\<close> is called on an active listing with a payment
  of at least the price (which the caller can afford) and the artist does not accept the
  payment, the call fails with \<open>TransferFailed\<close> and is rolled back as a whole: the state
  after the failed call is the state before it, so the listing is active again and the
  payment is back with the caller.  The deactivation had happened inside the call, before
  the payout was attempted.
\<close>

theorem purchaseArtistDesign_failed_payout:
  assumes "ArtistListing.active (artistListings s lid)"
    and "ArtistListing.price (artistListings s lid) \<le> val"
    and "val \<le> nativeBalances s sender"
    and "\<not> acceptsNative en (artist (artistListings s lid))"
  shows "purchaseArtistDesign en sender val lid s = Inl TransferFailed \<and>
         (\<exists>s1. purchaseArtistDesignChecks en sender val lid s = Inr s1 \<and>
               \<not> ArtistListing.active (artistListings s1 lid)) \<and>
         exec en sender (PurchaseArtistDesign lid val) s = s \<and>
         ArtistListing.active
           (artistListings (exec en sender (PurchaseArtistDesign lid val) s) lid)"
proof -
  have ch: "\<exists>s1. purchaseArtistDesignChecks en sender val lid s = Inr s1 \<and>
               \<not> ArtistListing.active (artistListings s1 lid)"
    using assms by (simp add: purchaseArtistDesignChecks_def payNative_def Let_def not_less)
  have f: "purchaseArtistDesign en sender val lid s = Inl TransferFailed"
    using assms
    by (simp add: purchaseArtistDesign_def purchaseArtistDesignChecks_def
        purchaseArtistDesignPayout_def payNative_def Let_def not_less)
  then have "exec en sender (PurchaseArtistDesign lid val) s = s" by (simp add: exec_def)
  with f ch assms(1) show ?thesis by simp
qed

theorem purchaseArtistDesign_failed_payout_witness:
  "ArtistListing.active (artistListings exampleArtworkRefusing 0) \<and>
   ArtistListing.price (artistListings exampleArtworkRefusing 0) \<le> 50 \<and>
   50 \<le> nativeBalances exampleArtworkRefusing 2 \<and>
   \<not> acceptsNative exampleEnv (artist (artistListings exampleArtworkRefusing 0)) \<and>
   purchaseArtistDesign exampleEnv 2 50 0 exampleArtworkRefusing = Inl TransferFailed \<and>
   exec exampleEnv 2 (PurchaseArtistDesign 0 50) exampleArtworkRefusing = exampleArtworkRefusing"
proof -
  have h: "ArtistListing.active (artistListings exampleArtworkRefusing 0)"
    "ArtistListing.price (artistListings exampleArtworkRefusing 0) \<le> 50"
    "50 \<le> nativeBalances exampleArtworkRefusing 2"
    "\<not> acceptsNative exampleEnv (artist (artistListings exampleArtworkRefusing 0))"
    by (simp_all add: example_defs op_defs base_defs Let_def)
  from purchaseArtistDesign_failed_payout[OF h] h show ?thesis by simp
qed

text \<open>
  C3: a failed call changes nothing.  For every entry point \<open>x\<close>, caller \<open>c\<close> and state
  \<open>s\<close>, if the call fails with an error \<open>e\<close> the state after it is \<open>s\<close>.  The failing
  paths of the eight mutators of the two contracts, one by one, each rejected with the
  error named and leaving \<open>s\<close>:
  \<^item> \<open>createGiftCard\<close>: a null asset; a zero amount; an address that is no asset
    contract; a caller holding less than the amount of an asset (then
    \<open>InsufficientBalance\<close>, and owners, vaults, counter, asset balances and event log
    are what they were); a missing allowance; and a refused mint, which comes after
    the assets were pulled into the contract (state \<open>sa\<close>) and returns them;
  \<^item> \<open>liquidate\<close>: an unminted token; a caller who is not the owner; a vault already
    liquidated; and a payout that fails after the flag was set (state \<open>r0\<close>), which
    leaves the flag as it was;
  \<^item> \<open>createArtistListing\<close>: an empty reference or a zero price;
  \<^item> \<open>purchaseArtistDesign\<close>: an inactive listing; an underpayment; and a payout that
    fails after the deactivation (state \<open>s1\<close>), which leaves the listing active;
  \<^item> \<open>cancelArtistListing\<close> and \<open>cancelGiftCardListing\<close>: a caller who is not the
    artist or seller; an inactive listing;
  \<^item> \<open>listGiftCard\<close>: a caller who is not the owner; a zero price; a missing approval;
  \<^item> \<open>purchaseGiftCard\<close>: an inactive listing; an underpayment; and a seller refusing
    the payment, after the deactivation and after the token went to the buyer.
\<close>

theorem failed_call_leaves_state:
  "(step en c x s = Inl e \<longrightarrow> exec en c x s = s) \<and>
   rejected en c (CreateGiftCard uri 0 amt) s InvalidTokenAddress \<and>
   (tok \<noteq> 0 \<longrightarrow> rejected en c (CreateGiftCard uri tok 0) s InsufficientBalance) \<and>
   (tok \<noteq> 0 \<and> amt \<noteq> 0 \<and> \<not> isERC20 en tok \<longrightarrow>
      rejected en c (CreateGiftCard uri tok amt) s CallReverted) \<and>
   (tok \<noteq> 0 \<and> isERC20 en tok \<and> erc20Balances s tok c < amt \<longrightarrow>
      createGiftCard en c uri tok amt s = Inl InsufficientBalance \<and>
      rejected en c (CreateGiftCard uri tok amt) s InsufficientBalance \<and>
      owners (exec en c (CreateGiftCard uri tok amt) s) = owners s \<and>
      vaults (exec en c (CreateGiftCard uri tok amt) s) = vaults s \<and>
      tokenIdCounter (exec en c (CreateGiftCard uri tok amt) s) = tokenIdCounter s \<and>
      erc20Balances (exec en c (CreateGiftCard uri tok amt) s) = erc20Balances s \<and>
      events (exec en c (CreateGiftCard uri tok amt) s) = events s) \<and>
   (tok \<noteq> 0 \<and> amt \<noteq> 0 \<and> isERC20 en tok \<and> amt \<le> erc20Balances s tok c \<and>
    erc20Allowances s tok c (nftAddr en) < amt \<longrightarrow>
      rejected en c (CreateGiftCard uri tok amt) s ERC20InsufficientAllowance) \<and>
   (tok \<noteq> 0 \<and> amt \<noteq> 0 \<and> isERC20 en tok \<and> amt \<le> erc20Balances s tok c \<and>
    safeTransferFrom20 en tok (nftAddr en) c (nftAddr en) amt s = Inr sa \<and>
    tokenIdCounter s \<noteq> - 1 \<and> owners s (tokenIdCounter s) = 0 \<and>
    c \<noteq> 0 \<and> c \<noteq> nftAddr en \<and> \<not> acceptsNFT en c \<longrightarrow>
      erc20Balances sa tok c = erc20Balances s tok c - amt \<and>
      erc20Balances sa tok (nftAddr en) = erc20Balances s tok (nftAddr en) + amt \<and>
      rejected en c (CreateGiftCard uri tok amt) s ERC721InvalidReceiver \<and>
      erc20Balances (exec en c (CreateGiftCard uri tok amt) s) = erc20Balances s) \<and>
   (owners s tid = 0 \<longrightarrow> rejected en c (Liquidate tid) s ERC721NonexistentToken) \<and>
   (owners s tid \<noteq> 0 \<and> owners s tid \<noteq> c \<longrightarrow> rejected en c (Liquidate tid) s NotTokenOwner) \<and>
   (owners s tid = c \<and> c \<noteq> 0 \<and> liquidated (vaults s tid) \<longrightarrow>
      rejected en c (Liquidate tid) s AlreadyLiquidated) \<and>
   (liquidateChecks c tid s = Inr r0 \<and> liquidatePayout en c tid r0 = Inl e \<longrightarrow>
      liquidated (vaults r0 tid) \<and> rejected en c (Liquidate tid) s e \<and>
      \<not> liquidated (vaults (exec en c (Liquidate tid) s) tid)) \<and>
   (hash = [] \<or> prc = 0 \<longrightarrow> rejected en c (CreateArtistListing hash prc) s InvalidListing) \<and>
   (val \<le> nativeBalances s c \<and> \<not> ArtistListing.active (artistListings s lid) \<longrightarrow>
      rejected en c (PurchaseArtistDesign lid val) s InvalidListing) \<and>
   (val \<le> nativeBalances s c \<and> ArtistListing.active (artistListings s lid) \<and>
    val < ArtistListing.price (artistListings s lid) \<longrightarrow>
      rejected en c (PurchaseArtistDesign lid val) s InsufficientPayment) \<and>
   (purchaseArtistDesignChecks en c val lid s = Inr s1 \<and>
    purchaseArtistDesignPayout en c val lid s1 = Inl e \<longrightarrow>
      \<not> ArtistListing.active (artistListings s1 lid) \<and>
      rejected en c (PurchaseArtistDesign lid val) s e \<and>
      ArtistListing.active (artistListings (exec en c (PurchaseArtistDesign lid val) s) lid)) \<and>
   (artist (artistListings s lid) \<noteq> c \<longrightarrow> rejected en c (CancelArtistListing lid) s NotSeller) \<and>
   (artist (artistListings s lid) = c \<and> \<not> ArtistListing.active (artistListings s lid) \<longrightarrow>
      rejected en c (CancelArtistListing lid) s InvalidListing) \<and>
   (owners s tid \<noteq> 0 \<and> owners s tid \<noteq> c \<longrightarrow> rejected en c (ListGiftCard tid prc) s NotSeller) \<and>
   (owners s tid = c \<and> c \<noteq> 0 \<longrightarrow> rejected en c (ListGiftCard tid 0) s InvalidListing) \<and>
   (owners s tid = c \<and> c \<noteq> 0 \<and> prc \<noteq> 0 \<and> tokenApprovals s tid \<noteq> mktAddr en \<longrightarrow>
      rejected en c (ListGiftCard tid prc) s NotApproved) \<and>
   (val \<le> nativeBalances s c \<and> \<not> active (giftCardListings s lid) \<longrightarrow>
      rejected en c (PurchaseGiftCard lid val) s InvalidListing) \<and>
   (val \<le> nativeBalances s c \<and> active (giftCardListings s lid) \<and>
    val < price (giftCardListings s lid) \<longrightarrow>
      rejected en c (PurchaseGiftCard lid val) s InsufficientPayment) \<and>
   (val \<le> nativeBalances s c \<and> active (giftCardListings s lid) \<and>
    price (giftCardListings s lid) \<le> val \<and>
    owners s (tokenId (giftCardListings s lid)) = mktAddr en \<and> mktAddr en \<noteq> 0 \<and> c \<noteq> 0 \<and>
    \<not> acceptsNative en (seller (giftCardListings s lid)) \<longrightarrow>
      rejected en c (PurchaseGiftCard lid val) s TransferFailed \<and>
      active (giftCardListings (exec en c (PurchaseGiftCard lid val) s) lid) \<and>
      owners (exec en c (PurchaseGiftCard lid val) s) (tokenId (giftCardListings s lid)) = mktAddr en) \<and>
   (seller (giftCardListings s lid) \<noteq> c \<longrightarrow>
      rejected en c (CancelGiftCardListing lid) s NotSeller) \<and>
   (seller (giftCardListings s lid) = c \<and> \<not> active (giftCardListings s lid) \<longrightarrow>
      rejected en c (CancelGiftCardListing lid) s InvalidListing)"
proof -
  have rj: "rejected en c y s e'" if "step en c y s = Inl e'" for y e'
    using that by (simp add: rejected_def exec_def)
  have g: "step en c x s = Inl e \<longrightarrow> exec en c x s = s"
    by (simp add: exec_def)
  have k1: "rejected en c (CreateGiftCard uri 0 amt) s InvalidTokenAddress"
    by (rule rj) (simp add: createGiftCard_def)
  have k2: "tok \<noteq> 0 \<longrightarrow> rejected en c (CreateGiftCard uri tok 0) s InsufficientBalance"
    by (auto intro!: rj simp: createGiftCard_def)
  have k3: "tok \<noteq> 0 \<and> amt \<noteq> 0 \<and> \<not> isERC20 en tok \<longrightarrow>
      rejected en c (CreateGiftCard uri tok amt) s CallReverted"
    by (auto intro!: rj simp: createGiftCard_def)
  have k4: "tok \<noteq> 0 \<and> isERC20 en tok \<and> erc20Balances s tok c < amt \<longrightarrow>
      createGiftCard en c uri tok amt s = Inl InsufficientBalance \<and>
      rejected en c (CreateGiftCard uri tok amt) s InsufficientBalance \<and>
      owners (exec en c (CreateGiftCard uri tok amt) s) = owners s \<and>
      vaults (exec en c (CreateGiftCard uri tok amt) s) = vaults s \<and>
      tokenIdCounter (exec en c (CreateGiftCard uri tok amt) s) = tokenIdCounter s \<and>
      erc20Balances (exec en c (CreateGiftCard uri tok amt) s) = erc20Balances s \<and>
      events (exec en c (CreateGiftCard uri tok amt) s) = events s"
    by (simp add: rejected_def exec_def createGiftCard_def)
  have k5: "tok \<noteq> 0 \<and> amt \<noteq> 0 \<and> isERC20 en tok \<and> amt \<le> erc20Balances s tok c \<and>
    erc20Allowances s tok c (nftAddr en) < amt \<longrightarrow>
      rejected en c (CreateGiftCard uri tok amt) s ERC20InsufficientAllowance"
  proof (intro impI, elim conjE)
    assume a: "tok \<noteq> 0" "amt \<noteq> 0" "isERC20 en tok" "amt \<le> erc20Balances s tok c"
      "erc20Allowances s tok c (nftAddr en) < amt"
    from a(5) have "erc20Allowances s tok c (nftAddr en) < - 1"
      by (metis less_le_trans word_order.extremum)
    with a show "rejected en c (CreateGiftCard uri tok amt) s ERC20InsufficientAllowance"
      by (intro rj)
         (simp add: createGiftCard_def safeTransferFrom20_def spendAllowance_def Let_def not_less)
  qed
  have k6: "tok \<noteq> 0 \<and> amt \<noteq> 0 \<and> isERC20 en tok \<and> amt \<le> erc20Balances s tok c \<and>
    safeTransferFrom20 en tok (nftAddr en) c (nftAddr en) amt s = Inr sa \<and>
    tokenIdCounter s \<noteq> - 1 \<and> owners s (tokenIdCounter s) = 0 \<and>
    c \<noteq> 0 \<and> c \<noteq> nftAddr en \<and> \<not> acceptsNFT en c \<longrightarrow>
      erc20Balances sa tok c = erc20Balances s tok c - amt \<and>
      erc20Balances sa tok (nftAddr en) = erc20Balances s tok (nftAddr en) + amt \<and>
      rejected en c (CreateGiftCard uri tok amt) s ERC721InvalidReceiver \<and>
      erc20Balances (exec en c (CreateGiftCard uri tok amt) s) = erc20Balances s"
  proof (intro impI, elim conjE)
    assume a: "tok \<noteq> 0" "amt \<noteq> 0" "isERC20 en tok" "amt \<le> erc20Balances s tok c"
      "tokenIdCounter s \<noteq> - 1" "owners s (tokenIdCounter s) = 0" "c \<noteq> 0" "c \<noteq> nftAddr en"
      "\<not> acceptsNFT en c"
      and t: "safeTransferFrom20 en tok (nftAddr en) c (nftAddr en) amt s = Inr sa"
    from safeTransferFrom20_Inr[OF t] have f: "owners sa = owners s" "tokenIdCounter sa = tokenIdCounter s"
      by simp_all
    from t a(8) have b: "erc20Balances sa tok c = erc20Balances s tok c - amt"
      "erc20Balances sa tok (nftAddr en) = erc20Balances s tok (nftAddr en) + amt"
      by (auto simp: safeTransferFrom20_def spendAllowance_def erc20Update_def Let_def
          split: if_splits sum.splits)
    have "step en c (CreateGiftCard uri tok amt) s = Inl ERC721InvalidReceiver"
      using a t f
      by (simp add: createGiftCard_def safeMint_def update721_def Let_def not_less)
    from rj[OF this] b
    show "erc20Balances sa tok c = erc20Balances s tok c - amt \<and>
      erc20Balances sa tok (nftAddr en) = erc20Balances s tok (nftAddr en) + amt \<and>
      rejected en c (CreateGiftCard uri tok amt) s ERC721InvalidReceiver \<and>
      erc20Balances (exec en c (CreateGiftCard uri tok amt) s) = erc20Balances s"
      by (simp add: rejected_def)
  qed
  have q1: "owners s tid = 0 \<longrightarrow> rejected en c (Liquidate tid) s ERC721NonexistentToken"
    by (auto intro!: rj simp: liquidate_def liquidateChecks_def ownerOf_def)
  have q2: "owners s tid \<noteq> 0 \<and> owners s tid \<noteq> c \<longrightarrow> rejected en c (Liquidate tid) s NotTokenOwner"
    by (auto intro!: rj simp: liquidate_def liquidateChecks_def ownerOf_def)
  have q3: "owners s tid = c \<and> c \<noteq> 0 \<and> liquidated (vaults s tid) \<longrightarrow>
      rejected en c (Liquidate tid) s AlreadyLiquidated"
    by (auto intro!: rj simp: liquidate_def liquidateChecks_def ownerOf_def)
  have q4: "liquidateChecks c tid s = Inr r0 \<and> liquidatePayout en c tid r0 = Inl e \<longrightarrow>
      liquidated (vaults r0 tid) \<and> rejected en c (Liquidate tid) s e \<and>
      \<not> liquidated (vaults (exec en c (Liquidate tid) s) tid)"
  proof (intro impI, elim conjE)
    assume ch: "liquidateChecks c tid s = Inr r0" and pa: "liquidatePayout en c tid r0 = Inl e"
    from ch have l: "liquidated (vaults r0 tid)" "\<not> liquidated (vaults s tid)"
      by (auto simp: liquidateChecks_def ownerOf_def split: if_splits)
    from ch pa have "step en c (Liquidate tid) s = Inl e" by (simp add: liquidate_def)
    from rj[OF this] l
    show "liquidated (vaults r0 tid) \<and> rejected en c (Liquidate tid) s e \<and>
      \<not> liquidated (vaults (exec en c (Liquidate tid) s) tid)"
      by (simp add: rejected_def)
  qed
  have a1: "hash = [] \<or> prc = 0 \<longrightarrow> rejected en c (CreateArtistListing hash prc) s InvalidListing"
    by (auto intro!: rj simp: createArtistListing_def)
  have p1: "val \<le> nativeBalances s c \<and> \<not> ArtistListing.active (artistListings s lid) \<longrightarrow>
      rejected en c (PurchaseArtistDesign lid val) s InvalidListing"
    by (auto intro!: rj simp: purchaseArtistDesign_def purchaseArtistDesignChecks_def
        payNative_def Let_def not_less)
  have p2: "val \<le> nativeBalances s c \<and> ArtistListing.active (artistListings s lid) \<and>
    val < ArtistListing.price (artistListings s lid) \<longrightarrow>
      rejected en c (PurchaseArtistDesign lid val) s InsufficientPayment"
    by (auto intro!: rj simp: purchaseArtistDesign_def purchaseArtistDesignChecks_def
        payNative_def Let_def not_less)
  have p3: "purchaseArtistDesignChecks en c val lid s = Inr s1 \<and>
    purchaseArtistDesignPayout en c val lid s1 = Inl e \<longrightarrow>
      \<not> ArtistListing.active (artistListings s1 lid) \<and>
      rejected en c (PurchaseArtistDesign lid val) s e \<and>
      ArtistListing.active (artistListings (exec en c (PurchaseArtistDesign lid val) s) lid)"
  proof (intro impI, elim conjE)
    assume ch: "purchaseArtistDesignChecks en c val lid s = Inr s1"
      and pa: "purchaseArtistDesignPayout en c val lid s1 = Inl e"
    from ch have l: "\<not> ArtistListing.active (artistListings s1 lid)"
      "ArtistListing.active (artistListings s lid)"
      by (auto simp: purchaseArtistDesignChecks_def payNative_def Let_def split: if_splits)
    from ch pa have "step en c (PurchaseArtistDesign lid val) s = Inl e"
      by (simp add: purchaseArtistDesign_def)
    from rj[OF this] l
    show "\<not> ArtistListing.active (artistListings s1 lid) \<and>
      rejected en c (PurchaseArtistDesign lid val) s e \<and>
      ArtistListing.active (artistListings (exec en c (PurchaseArtistDesign lid val) s) lid)"
      by (simp add: rejected_def)
  qed
  have ca1: "artist (artistListings s lid) \<noteq> c \<longrightarrow> rejected en c (CancelArtistListing lid) s NotSeller"
    by (auto intro!: rj simp: cancelArtistListing_def Let_def)
  have ca2: "artist (artistListings s lid) = c \<and> \<not> ArtistListing.active (artistListings s lid) \<longrightarrow>
      rejected en c (CancelArtistListing lid) s InvalidListing"
    by (auto intro!: rj simp: cancelArtistListing_def Let_def)
  have l1: "owners s tid \<noteq> 0 \<and> owners s tid \<noteq> c \<longrightarrow> rejected en c (ListGiftCard tid prc) s NotSeller"
    by (auto intro!: rj simp: listGiftCard_def ownerOf_def)
  have l2: "owners s tid = c \<and> c \<noteq> 0 \<longrightarrow> rejected en c (ListGiftCard tid 0) s InvalidListing"
    by (auto intro!: rj simp: listGiftCard_def ownerOf_def)
  have l3: "owners s tid = c \<and> c \<noteq> 0 \<and> prc \<noteq> 0 \<and> tokenApprovals s tid \<noteq> mktAddr en \<longrightarrow>
      rejected en c (ListGiftCard tid prc) s NotApproved"
    by (auto intro!: rj simp: listGiftCard_def ownerOf_def getApproved_def)
  have g1: "val \<le> nativeBalances s c \<and> \<not> active (giftCardListings s lid) \<longrightarrow>
      rejected en c (PurchaseGiftCard lid val) s InvalidListing"
    by (auto intro!: rj simp: purchaseGiftCard_def payNative_def Let_def not_less)
  have g2: "val \<le> nativeBalances s c \<and> active (giftCardListings s lid) \<and>
    val < price (giftCardListings s lid) \<longrightarrow>
      rejected en c (PurchaseGiftCard lid val) s InsufficientPayment"
    by (auto intro!: rj simp: purchaseGiftCard_def payNative_def Let_def not_less)
  have g3: "val \<le> nativeBalances s c \<and> active (giftCardListings s lid) \<and>
    price (giftCardListings s lid) \<le> val \<and>
    owners s (tokenId (giftCardListings s lid)) = mktAddr en \<and> mktAddr en \<noteq> 0 \<and> c \<noteq> 0 \<and>
    \<not> acceptsNative en (seller (giftCardListings s lid)) \<longrightarrow>
      rejected en c (PurchaseGiftCard lid val) s TransferFailed \<and>
      active (giftCardListings (exec en c (PurchaseGiftCard lid val) s) lid) \<and>
      owners (exec en c (PurchaseGiftCard lid val) s) (tokenId (giftCardListings s lid)) = mktAddr en"
  proof (intro impI, elim conjE)
    assume a: "val \<le> nativeBalances s c" "active (giftCardListings s lid)"
      "price (giftCardListings s lid) \<le> val"
      "owners s (tokenId (giftCardListings s lid)) = mktAddr en" "mktAddr en \<noteq> 0" "c \<noteq> 0"
      "\<not> acceptsNative en (seller (giftCardListings s lid))"
    have "step en c (PurchaseGiftCard lid val) s = Inl TransferFailed"
      using a
      by (simp add: purchaseGiftCard_def payNative_def transferFrom_def update721_def
          isAuthorized_def Let_def not_less)
    from rj[OF this] a(2,4)
    show "rejected en c (PurchaseGiftCard lid val) s TransferFailed \<and>
      active (giftCardListings (exec en c (PurchaseGiftCard lid val) s) lid) \<and>
      owners (exec en c (PurchaseGiftCard lid val) s) (tokenId (giftCardListings s lid)) = mktAddr en"
      by (simp add: rejected_def)
  qed
  have cg1: "seller (giftCardListings s lid) \<noteq> c \<longrightarrow>
      rejected en c (CancelGiftCardListing lid) s NotSeller"
    by (auto intro!: rj simp: cancelGiftCardListing_def Let_def)
  have cg2: "seller (giftCardListings s lid) = c \<and> \<not> active (giftCardListings s lid) \<longrightarrow>
      rejected en c (CancelGiftCardListing lid) s InvalidListing"
    by (auto intro!: rj simp: cancelGiftCardListing_def Let_def)
  show ?thesis
    using g k1 k2 k3 k4 k5 k6 q1 q2 q3 q4 a1 p1 p2 p3 ca1 ca2 l1 l2 l3 g1 g2 g3 cg1 cg2
    by (intro conjI) assumption+
qed

theorem failed_call_leaves_state_witness:
  "step exampleEnv 3 (CreateGiftCard ''uri'' 7 100) exampleState = Inl InsufficientBalance \<and>
   exec exampleEnv 3 (CreateGiftCard ''uri'' 7 100) exampleState = exampleState \<and>
   events (exec exampleEnv 3 (CreateGiftCard ''uri'' 7 100) exampleState) = [] \<and>
   rejected exampleEnv 3 (CreateGiftCard ''uri'' 0 100) exampleState InvalidTokenAddress \<and>
   rejected exampleEnv 3 (CreateGiftCard ''uri'' 7 0) exampleState InsufficientBalance \<and>
   rejected exampleEnv 1 (CreateGiftCard ''uri'' 5 10) exampleState CallReverted \<and>
   rejected exampleEnv 3 (CreateGiftCard ''uri'' 7 100) exampleState InsufficientBalance \<and>
   rejected exampleEnv 4 (CreateGiftCard ''uri'' 7 100) exampleState ERC20InsufficientAllowance \<and>
   rejected exampleEnv 9 (CreateGiftCard ''uri'' 7 100) exampleState ERC721InvalidReceiver \<and>
   erc20Balances (projr (safeTransferFrom20 exampleEnv 7 100 9 100 100 exampleState)) 7 100 = 100 \<and>
   erc20Balances (exec exampleEnv 9 (CreateGiftCard ''uri'' 7 100) exampleState) 7 100 = 0 \<and>
   rejected exampleEnv 3 (Liquidate 5) exampleState ERC721NonexistentToken \<and>
   rejected exampleEnv 2 (Liquidate 0) exampleMinted NotTokenOwner \<and>
   rejected exampleEnv 1 (Liquidate 0) (exec exampleEnv 1 (Liquidate 0) exampleMinted)
     AlreadyLiquidated \<and>
   rejected exampleEnv 1 (Liquidate 0) exampleDrained ERC20InsufficientBalance \<and>
   liquidated (vaults (projr (liquidateChecks 1 0 exampleDrained)) 0) \<and>
   \<not> liquidated (vaults (exec exampleEnv 1 (Liquidate 0) exampleDrained) 0) \<and>
   rejected exampleEnv 3 (CreateArtistListing [] 50) exampleState InvalidListing \<and>
   rejected exampleEnv 3 (PurchaseArtistDesign 5 50) exampleState InvalidListing \<and>
   rejected exampleEnv 2 (PurchaseArtistDesign 0 10) exampleArtwork InsufficientPayment \<and>
   rejected exampleEnv 2 (PurchaseArtistDesign 0 50) exampleArtworkRefusing TransferFailed \<and>
   rejected exampleEnv 3 (CancelArtistListing 5) exampleState NotSeller \<and>
   rejected exampleEnv 3 (CancelArtistListing 0)
     (exec exampleEnv 3 (CancelArtistListing 0) exampleArtwork) InvalidListing \<and>
   rejected exampleEnv 2 (ListGiftCard 0 50) exampleMinted NotSeller \<and>
   rejected exampleEnv 1 (ListGiftCard 0 0) exampleMinted InvalidListing \<and>
   rejected exampleEnv 1 (ListGiftCard 0 50) exampleMinted NotApproved \<and>
   rejected exampleEnv 3 (PurchaseGiftCard 5 50) exampleState InvalidListing \<and>
   rejected exampleEnv 2 (PurchaseGiftCard 0 10) exampleListed InsufficientPayment \<and>
   rejected exampleEnv 2 (PurchaseGiftCard 0 50) exampleListedRefusing TransferFailed \<and>
   owners (exec exampleEnv 2 (PurchaseGiftCard 0 50) exampleListedRefusing) 0 = 200 \<and>
   rejected exampleEnv 3 (CancelGiftCardListing 5) exampleState NotSeller \<and>
   rejected exampleEnv 1 (CancelGiftCardListing 0)
     (exec exampleEnv 1 (CancelGiftCardListing 0) exampleListed) InvalidListing"
proof -
  note ev = example_defs op_defs base_defs Let_def
  have h1: "step exampleEnv 3 (CreateGiftCard ''uri'' 7 100) exampleState = Inl InsufficientBalance"
    and h1b: "(7::address) \<noteq> 0"
    and h1c: "(7::address) \<noteq> 0 \<and> isERC20 exampleEnv 7 \<and> erc20Balances exampleState 7 3 < 100"
    and h1d: "owners exampleState 5 = 0"
    and h1e: "([]::string) = [] \<or> (50::uint256) = 0"
    and h1f: "50 \<le> nativeBalances exampleState 3 \<and>
              \<not> ArtistListing.active (artistListings exampleState 5)"
    and h1g: "artist (artistListings exampleState 5) \<noteq> 3"
    and h1h: "50 \<le> nativeBalances exampleState 3 \<and> \<not> active (giftCardListings exampleState 5)"
    and h1i: "seller (giftCardListings exampleState 5) \<noteq> 3"
    and e0: "events exampleState = []"
    by (simp_all add: ev)
  note w1 = failed_call_leaves_state[where en = "exampleEnv"
      and c = "3"
      and x = "CreateGiftCard ''uri'' 7 100"
      and s = "exampleState"
      and e = "InsufficientBalance"
      and uri = "''uri''"
      and amt = "100"
      and tok = "7"
      and sa = "exampleState"
      and tid = "5"
      and ?r0.0 = "exampleState"
      and hash = "[]"
      and prc = "50"
      and val = "50"
      and lid = "5"
      and ?s1.0 = "exampleState"]
  have r1a: "exec exampleEnv 3 (CreateGiftCard ''uri'' 7 100) exampleState = exampleState"
    by (rule mp[OF _ h1]) (insert w1, elim conjE, assumption)
  have r1b: "rejected exampleEnv 3 (CreateGiftCard ''uri'' 0 100) exampleState InvalidTokenAddress"
    by (insert w1, elim conjE, assumption)
  have r1c: "rejected exampleEnv 3 (CreateGiftCard ''uri'' 7 0) exampleState InsufficientBalance"
    by (rule mp[OF _ h1b]) (insert w1, elim conjE, assumption)
  have r1d: "createGiftCard exampleEnv 3 ''uri'' 7 100 exampleState = Inl InsufficientBalance \<and>
      rejected exampleEnv 3 (CreateGiftCard ''uri'' 7 100) exampleState InsufficientBalance \<and>
      owners (exec exampleEnv 3 (CreateGiftCard ''uri'' 7 100) exampleState) = owners exampleState \<and>
      vaults (exec exampleEnv 3 (CreateGiftCard ''uri'' 7 100) exampleState) = vaults exampleState \<and>
      tokenIdCounter (exec exampleEnv 3 (CreateGiftCard ''uri'' 7 100) exampleState)
        = tokenIdCounter exampleState \<and>
      erc20Balances (exec exampleEnv 3 (CreateGiftCard ''uri'' 7 100) exampleState)
        = erc20Balances exampleState \<and>
      events (exec exampleEnv 3 (CreateGiftCard ''uri'' 7 100) exampleState) = events exampleState"
    by (rule mp[OF _ h1c]) (insert w1, elim conjE, assumption)
  from r1d e0 have r1e:
    "events (exec exampleEnv 3 (CreateGiftCard ''uri'' 7 100) exampleState) = []"
    "rejected exampleEnv 3 (CreateGiftCard ''uri'' 7 100) exampleState InsufficientBalance"
    by simp_all
  have r1f: "rejected exampleEnv 3 (Liquidate 5) exampleState ERC721NonexistentToken"
    by (rule mp[OF _ h1d]) (insert w1, elim conjE, assumption)
  have r1g: "rejected exampleEnv 3 (CreateArtistListing [] 50) exampleState InvalidListing"
    by (rule mp[OF _ h1e]) (insert w1, elim conjE, assumption)
  have r1h: "rejected exampleEnv 3 (PurchaseArtistDesign 5 50) exampleState InvalidListing"
    by (rule mp[OF _ h1f]) (insert w1, elim conjE, assumption)
  have r1i: "rejected exampleEnv 3 (CancelArtistListing 5) exampleState NotSeller"
    by (rule mp[OF _ h1g]) (insert w1, elim conjE, assumption)
  have r1j: "rejected exampleEnv 3 (PurchaseGiftCard 5 50) exampleState InvalidListing"
    by (rule mp[OF _ h1h]) (insert w1, elim conjE, assumption)
  have r1k: "rejected exampleEnv 3 (CancelGiftCardListing 5) exampleState NotSeller"
    by (rule mp[OF _ h1i]) (insert w1, elim conjE, assumption)
  have h2: "(5::address) \<noteq> 0 \<and> (10::uint256) \<noteq> 0 \<and> \<not> isERC20 exampleEnv 5"
    by (simp add: ev)
  note w2 = failed_call_leaves_state[where en = "exampleEnv"
      and c = "1"
      and x = "Liquidate 0"
      and s = "exampleState"
      and e = "InvalidListing"
      and uri = "''uri''"
      and amt = "10"
      and tok = "5"
      and sa = "exampleState"
      and tid = "0"
      and ?r0.0 = "exampleState"
      and hash = "''Qm''"
      and prc = "50"
      and val = "50"
      and lid = "0"
      and ?s1.0 = "exampleState"]
  have r2: "rejected exampleEnv 1 (CreateGiftCard ''uri'' 5 10) exampleState CallReverted"
    by (rule mp[OF _ h2]) (insert w2, elim conjE, assumption)
  have h3: "(7::address) \<noteq> 0 \<and> (100::uint256) \<noteq> 0 \<and> isERC20 exampleEnv 7 \<and>
      100 \<le> erc20Balances exampleState 7 4 \<and>
      erc20Allowances exampleState 7 4 (nftAddr exampleEnv) < 100"
    by (simp add: ev)
  note w3 = failed_call_leaves_state[where en = "exampleEnv"
      and c = "4"
      and x = "Liquidate 0"
      and s = "exampleState"
      and e = "InvalidListing"
      and uri = "''uri''"
      and amt = "100"
      and tok = "7"
      and sa = "exampleState"
      and tid = "0"
      and ?r0.0 = "exampleState"
      and hash = "''Qm''"
      and prc = "50"
      and val = "50"
      and lid = "0"
      and ?s1.0 = "exampleState"]
  have r3: "rejected exampleEnv 4 (CreateGiftCard ''uri'' 7 100) exampleState ERC20InsufficientAllowance"
    by (rule mp[OF _ h3]) (insert w3, elim conjE, assumption)
  have h4: "(7::address) \<noteq> 0 \<and> (100::uint256) \<noteq> 0 \<and> isERC20 exampleEnv 7 \<and>
      100 \<le> erc20Balances exampleState 7 9 \<and>
      safeTransferFrom20 exampleEnv 7 (nftAddr exampleEnv) 9 (nftAddr exampleEnv) 100 exampleState
        = Inr (projr (safeTransferFrom20 exampleEnv 7 100 9 100 100 exampleState)) \<and>
      tokenIdCounter exampleState \<noteq> - 1 \<and> owners exampleState (tokenIdCounter exampleState) = 0 \<and>
      (9::address) \<noteq> 0 \<and> 9 \<noteq> nftAddr exampleEnv \<and> \<not> acceptsNFT exampleEnv 9"
    by (simp add: ev)
  have b4: "erc20Balances exampleState 7 100 = 0" "nftAddr exampleEnv = 100"
    by (simp_all add: ev)
  note w4 = failed_call_leaves_state[where en = "exampleEnv"
      and c = "9"
      and x = "Liquidate 0"
      and s = "exampleState"
      and e = "InvalidListing"
      and uri = "''uri''"
      and amt = "100"
      and tok = "7"
      and sa = "projr (safeTransferFrom20 exampleEnv 7 100 9 100 100 exampleState)"
      and tid = "0"
      and ?r0.0 = "exampleState"
      and hash = "''Qm''"
      and prc = "50"
      and val = "50"
      and lid = "0"
      and ?s1.0 = "exampleState"]
  have r4a: "erc20Balances (projr (safeTransferFrom20 exampleEnv 7 100 9 100 100 exampleState)) 7 9 = erc20Balances exampleState 7 9 - 100 \<and>
      erc20Balances (projr (safeTransferFrom20 exampleEnv 7 100 9 100 100 exampleState)) 7 (nftAddr exampleEnv)
        = erc20Balances exampleState 7 (nftAddr exampleEnv) + 100 \<and>
      rejected exampleEnv 9 (CreateGiftCard ''uri'' 7 100) exampleState ERC721InvalidReceiver \<and>
      erc20Balances (exec exampleEnv 9 (CreateGiftCard ''uri'' 7 100) exampleState)
        = erc20Balances exampleState"
    by (rule mp[OF _ h4]) (insert w4, elim conjE, assumption)
  from r4a b4 have r4:
    "rejected exampleEnv 9 (CreateGiftCard ''uri'' 7 100) exampleState ERC721InvalidReceiver"
    "erc20Balances (projr (safeTransferFrom20 exampleEnv 7 100 9 100 100 exampleState)) 7 100 = 100"
    "erc20Balances (exec exampleEnv 9 (CreateGiftCard ''uri'' 7 100) exampleState) 7 100 = 0"
    by simp_all
  have h5: "owners exampleMinted 0 \<noteq> 0 \<and> owners exampleMinted 0 \<noteq> 2"
    by (simp add: ev)
  note w5 = failed_call_leaves_state[where en = "exampleEnv"
      and c = "2"
      and x = "Liquidate 0"
      and s = "exampleMinted"
      and e = "InvalidListing"
      and uri = "''uri''"
      and amt = "100"
      and tok = "7"
      and sa = "exampleState"
      and tid = "0"
      and ?r0.0 = "exampleState"
      and hash = "''Qm''"
      and prc = "50"
      and val = "50"
      and lid = "0"
      and ?s1.0 = "exampleState"]
  have r5a: "rejected exampleEnv 2 (Liquidate 0) exampleMinted NotTokenOwner"
    by (rule mp[OF _ h5]) (insert w5, elim conjE, assumption)
  have r5b: "rejected exampleEnv 2 (ListGiftCard 0 50) exampleMinted NotSeller"
    by (rule mp[OF _ h5]) (insert w5, elim conjE, assumption)
  have h6a: "owners exampleMinted 0 = 1 \<and> (1::address) \<noteq> 0"
    and h6b: "owners exampleMinted 0 = 1 \<and> (1::address) \<noteq> 0 \<and> (50::uint256) \<noteq> 0 \<and>
     tokenApprovals exampleMinted 0 \<noteq> mktAddr exampleEnv"
    by (simp_all add: ev)
  note w6 = failed_call_leaves_state[where en = "exampleEnv"
      and c = "1"
      and x = "Liquidate 0"
      and s = "exampleMinted"
      and e = "InvalidListing"
      and uri = "''uri''"
      and amt = "100"
      and tok = "7"
      and sa = "exampleState"
      and tid = "0"
      and ?r0.0 = "exampleState"
      and hash = "''Qm''"
      and prc = "50"
      and val = "50"
      and lid = "0"
      and ?s1.0 = "exampleState"]
  have r6a: "rejected exampleEnv 1 (ListGiftCard 0 0) exampleMinted InvalidListing"
    by (rule mp[OF _ h6a]) (insert w6, elim conjE, assumption)
  have r6b: "rejected exampleEnv 1 (ListGiftCard 0 50) exampleMinted NotApproved"
    by (rule mp[OF _ h6b]) (insert w6, elim conjE, assumption)
  have h7: "owners (exec exampleEnv 1 (Liquidate 0) exampleMinted) 0 = 1 \<and> (1::address) \<noteq> 0 \<and>
      liquidated (vaults (exec exampleEnv 1 (Liquidate 0) exampleMinted) 0)"
    by (simp add: ev)
  note w7 = failed_call_leaves_state[where en = "exampleEnv"
      and c = "1"
      and x = "Liquidate 0"
      and s = "exec exampleEnv 1 (Liquidate 0) exampleMinted"
      and e = "InvalidListing"
      and uri = "''uri''"
      and amt = "100"
      and tok = "7"
      and sa = "exampleState"
      and tid = "0"
      and ?r0.0 = "exampleState"
      and hash = "''Qm''"
      and prc = "50"
      and val = "50"
      and lid = "0"
      and ?s1.0 = "exampleState"]
  have r7: "rejected exampleEnv 1 (Liquidate 0) (exec exampleEnv 1 (Liquidate 0) exampleMinted) AlreadyLiquidated"
    by (rule mp[OF _ h7]) (insert w7, elim conjE, assumption)
  have h8: "liquidateChecks 1 0 exampleDrained = Inr (projr (liquidateChecks 1 0 exampleDrained)) \<and>
      liquidatePayout exampleEnv 1 0 (projr (liquidateChecks 1 0 exampleDrained)) = Inl ERC20InsufficientBalance"
    by (simp add: exampleDrained_def ev)
  note w8 = failed_call_leaves_state[where en = "exampleEnv"
      and c = "1"
      and x = "Liquidate 0"
      and s = "exampleDrained"
      and e = "ERC20InsufficientBalance"
      and uri = "''uri''"
      and amt = "100"
      and tok = "7"
      and sa = "exampleState"
      and tid = "0"
      and ?r0.0 = "projr (liquidateChecks 1 0 exampleDrained)"
      and hash = "''Qm''"
      and prc = "50"
      and val = "50"
      and lid = "0"
      and ?s1.0 = "exampleState"]
  have r8a: "liquidated (vaults (projr (liquidateChecks 1 0 exampleDrained)) 0) \<and>
      rejected exampleEnv 1 (Liquidate 0) exampleDrained ERC20InsufficientBalance \<and>
      \<not> liquidated (vaults (exec exampleEnv 1 (Liquidate 0) exampleDrained) 0)"
    by (rule mp[OF _ h8]) (insert w8, elim conjE, assumption)
  from r8a have r8:
    "rejected exampleEnv 1 (Liquidate 0) exampleDrained ERC20InsufficientBalance"
    "liquidated (vaults (projr (liquidateChecks 1 0 exampleDrained)) 0)"
    "\<not> liquidated (vaults (exec exampleEnv 1 (Liquidate 0) exampleDrained) 0)"
    by simp_all
  have h9: "10 \<le> nativeBalances exampleArtwork 2 \<and>
      ArtistListing.active (artistListings exampleArtwork 0) \<and>
      10 < ArtistListing.price (artistListings exampleArtwork 0)"
    by (simp add: ev)
  note w9 = failed_call_leaves_state[where en = "exampleEnv"
      and c = "2"
      and x = "Liquidate 0"
      and s = "exampleArtwork"
      and e = "InvalidListing"
      and uri = "''uri''"
      and amt = "100"
      and tok = "7"
      and sa = "exampleState"
      and tid = "0"
      and ?r0.0 = "exampleState"
      and hash = "''Qm''"
      and prc = "50"
      and val = "10"
      and lid = "0"
      and ?s1.0 = "exampleState"]
  have r9: "rejected exampleEnv 2 (PurchaseArtistDesign 0 10) exampleArtwork InsufficientPayment"
    by (rule mp[OF _ h9]) (insert w9, elim conjE, assumption)
  have h10: "purchaseArtistDesignChecks exampleEnv 2 50 0 exampleArtworkRefusing = Inr (projr (purchaseArtistDesignChecks exampleEnv 2 50 0 exampleArtworkRefusing)) \<and>
      purchaseArtistDesignPayout exampleEnv 2 50 0 (projr (purchaseArtistDesignChecks exampleEnv 2 50 0 exampleArtworkRefusing)) = Inl TransferFailed"
    by (simp add: ev)
  note w10 = failed_call_leaves_state[where en = "exampleEnv"
      and c = "2"
      and x = "Liquidate 0"
      and s = "exampleArtworkRefusing"
      and e = "TransferFailed"
      and uri = "''uri''"
      and amt = "100"
      and tok = "7"
      and sa = "exampleState"
      and tid = "0"
      and ?r0.0 = "exampleState"
      and hash = "''Qm''"
      and prc = "50"
      and val = "50"
      and lid = "0"
      and ?s1.0 = "projr (purchaseArtistDesignChecks exampleEnv 2 50 0 exampleArtworkRefusing)"]
  have r10a: "\<not> ArtistListing.active (artistListings (projr (purchaseArtistDesignChecks exampleEnv 2 50 0 exampleArtworkRefusing)) 0) \<and>
      rejected exampleEnv 2 (PurchaseArtistDesign 0 50) exampleArtworkRefusing TransferFailed \<and>
      ArtistListing.active
        (artistListings (exec exampleEnv 2 (PurchaseArtistDesign 0 50) exampleArtworkRefusing) 0)"
    by (rule mp[OF _ h10]) (insert w10, elim conjE, assumption)
  from r10a have r10:
    "rejected exampleEnv 2 (PurchaseArtistDesign 0 50) exampleArtworkRefusing TransferFailed"
    by simp
  have h11: "artist (artistListings (exec exampleEnv 3 (CancelArtistListing 0) exampleArtwork) 0) = 3 \<and>
      \<not> ArtistListing.active (artistListings (exec exampleEnv 3 (CancelArtistListing 0) exampleArtwork) 0)"
    by (simp add: ev)
  note w11 = failed_call_leaves_state[where en = "exampleEnv"
      and c = "3"
      and x = "Liquidate 0"
      and s = "exec exampleEnv 3 (CancelArtistListing 0) exampleArtwork"
      and e = "InvalidListing"
      and uri = "''uri''"
      and amt = "100"
      and tok = "7"
      and sa = "exampleState"
      and tid = "0"
      and ?r0.0 = "exampleState"
      and hash = "''Qm''"
      and prc = "50"
      and val = "50"
      and lid = "0"
      and ?s1.0 = "exampleState"]
  have r11: "rejected exampleEnv 3 (CancelArtistListing 0) (exec exampleEnv 3 (CancelArtistListing 0) exampleArtwork) InvalidListing"
    by (rule mp[OF _ h11]) (insert w11, elim conjE, assumption)
  have h12: "10 \<le> nativeBalances exampleListed 2 \<and> active (giftCardListings exampleListed 0) \<and>
      10 < price (giftCardListings exampleListed 0)"
    by (simp add: ev)
  note w12 = failed_call_leaves_state[where en = "exampleEnv"
      and c = "2"
      and x = "Liquidate 0"
      and s = "exampleListed"
      and e = "InvalidListing"
      and uri = "''uri''"
      and amt = "100"
      and tok = "7"
      and sa = "exampleState"
      and tid = "0"
      and ?r0.0 = "exampleState"
      and hash = "''Qm''"
      and prc = "50"
      and val = "10"
      and lid = "0"
      and ?s1.0 = "exampleState"]
  have r12: "rejected exampleEnv 2 (PurchaseGiftCard 0 10) exampleListed InsufficientPayment"
    by (rule mp[OF _ h12]) (insert w12, elim conjE, assumption)
  have h13: "50 \<le> nativeBalances exampleListedRefusing 2 \<and>
      active (giftCardListings exampleListedRefusing 0) \<and>
      price (giftCardListings exampleListedRefusing 0) \<le> 50 \<and>
      owners exampleListedRefusing (tokenId (giftCardListings exampleListedRefusing 0))
        = mktAddr exampleEnv \<and>
      mktAddr exampleEnv \<noteq> 0 \<and> (2::address) \<noteq> 0 \<and>
      \<not> acceptsNative exampleEnv (seller (giftCardListings exampleListedRefusing 0))"
    and t13: "tokenId (giftCardListings exampleListedRefusing 0) = 0" "mktAddr exampleEnv = 200"
    by (simp_all add: exampleListedRefusing_def ev)
  note w13 = failed_call_leaves_state[where en = "exampleEnv"
      and c = "2"
      and x = "Liquidate 0"
      and s = "exampleListedRefusing"
      and e = "InvalidListing"
      and uri = "''uri''"
      and amt = "100"
      and tok = "7"
      and sa = "exampleState"
      and tid = "0"
      and ?r0.0 = "exampleState"
      and hash = "''Qm''"
      and prc = "50"
      and val = "50"
      and lid = "0"
      and ?s1.0 = "exampleState"]
  have r13a: "rejected exampleEnv 2 (PurchaseGiftCard 0 50) exampleListedRefusing TransferFailed \<and>
      active (giftCardListings (exec exampleEnv 2 (PurchaseGiftCard 0 50) exampleListedRefusing) 0) \<and>
      owners (exec exampleEnv 2 (PurchaseGiftCard 0 50) exampleListedRefusing)
        (tokenId (giftCardListings exampleListedRefusing 0)) = mktAddr exampleEnv"
    by (rule mp[OF _ h13]) (insert w13, elim conjE, assumption)
  from r13a t13 have r13:
    "rejected exampleEnv 2 (PurchaseGiftCard 0 50) exampleListedRefusing TransferFailed"
    "owners (exec exampleEnv 2 (PurchaseGiftCard 0 50) exampleListedRefusing) 0 = 200"
    by simp_all
  have h14: "seller (giftCardListings (exec exampleEnv 1 (CancelGiftCardListing 0) exampleListed) 0) = 1 \<and>
      \<not> active (giftCardListings (exec exampleEnv 1 (CancelGiftCardListing 0) exampleListed) 0)"
    by (simp add: ev)
  note w14 = failed_call_leaves_state[where en = "exampleEnv"
      and c = "1"
      and x = "Liquidate 0"
      and s = "exec exampleEnv 1 (CancelGiftCardListing 0) exampleListed"
      and e = "InvalidListing"
      and uri = "''uri''"
      and amt = "100"
      and tok = "7"
      and sa = "exampleState"
      and tid = "0"
      and ?r0.0 = "exampleState"
      and hash = "''Qm''"
      and prc = "50"
      and val = "50"
      and lid = "0"
      and ?s1.0 = "exampleState"]
  have r14: "rejected exampleEnv 1 (CancelGiftCardListing 0) (exec exampleEnv 1 (CancelGiftCardListing 0) exampleListed) InvalidListing"
    by (rule mp[OF _ h14]) (insert w14, elim conjE, assumption)
  show ?thesis
    using h1 r1a r1b r1c r1e r1f r1g r1h r1i r1j r1k r2 r3 r4 r5a r5b r6a r6b r7 r8 r9 r10 r11
      r12 r13 r14
    by (intro conjI) assumption+
qed

text \<open>
  C4: escrow.  In every state reached from deployment by transactions whose senders are
  neither the zero address nor the marketplace, the token of every active resale
  listing is owned by the marketplace.  A successful \<open>listGiftCard\<close> puts the token
  there and creates the listing active; a successful \<open>purchaseGiftCard\<close> finds the
  listing active and the token with the marketplace and, in the same call, deactivates
  the listing and makes the buyer the owner; a successful \<open>cancelGiftCardListing\<close> does
  the same in favour of the caller, who is the listing's seller.
\<close>

theorem escrow_custody:
  assumes "mktAddr en \<noteq> 0" and "sendersOk en xs"
  shows "(active (giftCardListings (run en xs (deployed b a n)) lid) \<longrightarrow>
            owners (run en xs (deployed b a n))
              (tokenId (giftCardListings (run en xs (deployed b a n)) lid)) = mktAddr en) \<and>
         (listGiftCard en c tid prc s = Inr (s1, l) \<longrightarrow>
            active (giftCardListings s1 l) \<and> tokenId (giftCardListings s1 l) = tid \<and>
            seller (giftCardListings s1 l) = c \<and> owners s1 tid = mktAddr en) \<and>
         (purchaseGiftCard en c val l s = Inr s2 \<longrightarrow>
            active (giftCardListings s l) \<and>
            owners s (tokenId (giftCardListings s l)) = mktAddr en \<and>
            \<not> active (giftCardListings s2 l) \<and>
            owners s2 (tokenId (giftCardListings s l)) = c) \<and>
         (cancelGiftCardListing en c l s = Inr s3 \<longrightarrow>
            active (giftCardListings s l) \<and>
            owners s (tokenId (giftCardListings s l)) = mktAddr en \<and>
            c = seller (giftCardListings s l) \<and>
            \<not> active (giftCardListings s3 l) \<and>
            owners s3 (tokenId (giftCardListings s l)) = c)"
proof -
  from run_escrowInv[OF assms, of b a n]
  have 1: "active (giftCardListings (run en xs (deployed b a n)) lid) \<longrightarrow>
            owners (run en xs (deployed b a n))
              (tokenId (giftCardListings (run en xs (deployed b a n)) lid)) = mktAddr en"
    unfolding escrowInv_def by blast
  have 2: "active (giftCardListings s1 l) \<and> tokenId (giftCardListings s1 l) = tid \<and>
           seller (giftCardListings s1 l) = c \<and> owners s1 tid = mktAddr en"
    if "listGiftCard en c tid prc s = Inr (s1, l)"
    using listGiftCard_Inr[OF that] by simp
  have 3: "active (giftCardListings s l) \<and>
           owners s (tokenId (giftCardListings s l)) = mktAddr en \<and>
           \<not> active (giftCardListings s2 l) \<and>
           owners s2 (tokenId (giftCardListings s l)) = c"
    if "purchaseGiftCard en c val l s = Inr s2"
    using purchaseGiftCard_Inr[OF that] by simp
  have 4: "active (giftCardListings s l) \<and>
           owners s (tokenId (giftCardListings s l)) = mktAddr en \<and>
           c = seller (giftCardListings s l) \<and>
           \<not> active (giftCardListings s3 l) \<and>
           owners s3 (tokenId (giftCardListings s l)) = c"
    if "cancelGiftCardListing en c l s = Inr s3"
    using cancelGiftCardListing_Inr[OF that] by simp
  from 1 2 3 4 show ?thesis by blast
qed

theorem escrow_custody_witness:
  "mktAddr exampleEnv \<noteq> 0 \<and>
   sendersOk exampleEnv
     [(1, CreateGiftCard ''uri'' 7 100), (1, Approve 200 0), (1, ListGiftCard 0 50)] \<and>
   active (giftCardListings exampleListed 0) \<and>
   owners exampleListed (tokenId (giftCardListings exampleListed 0)) = mktAddr exampleEnv \<and>
   purchaseGiftCard exampleEnv 2 50 0 exampleListed =
     Inr (exec exampleEnv 2 (PurchaseGiftCard 0 50) exampleListed) \<and>
   owners (exec exampleEnv 2 (PurchaseGiftCard 0 50) exampleListed) 0 = 2 \<and>
   cancelGiftCardListing exampleEnv 1 0 exampleListed =
     Inr (exec exampleEnv 1 (CancelGiftCardListing 0) exampleListed) \<and>
   owners (exec exampleEnv 1 (CancelGiftCardListing 0) exampleListed) 0 = 1 \<and>
   map_sum id snd (listGiftCard exampleEnv 1 0 50
      (run exampleEnv [(1, Approve 200 0)] exampleMinted)) = Inr 0"
proof -
  have m: "mktAddr exampleEnv \<noteq> 0" by (simp add: exampleEnv_def)
  have so: "sendersOk exampleEnv
     [(1, CreateGiftCard ''uri'' 7 100), (1, Approve 200 0), (1, ListGiftCard 0 50)]"
    by (simp add: example_defs)
  have r: "exampleListed = run exampleEnv
     [(1, CreateGiftCard ''uri'' 7 100), (1, Approve 200 0), (1, ListGiftCard 0 50)]
     (deployed (\<lambda>t a. if a = 1 \<or> a = 4 \<or> a = 9 then 500 else 0)
       (\<lambda>t a sp. if (a = 1 \<or> a = 9) \<and> sp = 100 then 500 else 0) (\<lambda>a. 1000))"
    by (simp add: exampleListed_def exampleMinted_def exampleState_def)
  have a: "active (giftCardListings exampleListed 0)"
    and t: "tokenId (giftCardListings exampleListed 0) = 0"
    by (simp_all add: example_defs op_defs base_defs Let_def)
  have p: "purchaseGiftCard exampleEnv 2 50 0 exampleListed =
     Inr (exec exampleEnv 2 (PurchaseGiftCard 0 50) exampleListed)"
    by (simp add: example_defs op_defs base_defs Let_def)
  have c: "cancelGiftCardListing exampleEnv 1 0 exampleListed =
     Inr (exec exampleEnv 1 (CancelGiftCardListing 0) exampleListed)"
    by (simp add: example_defs op_defs base_defs Let_def)
  have l: "map_sum id snd (listGiftCard exampleEnv 1 0 50
      (run exampleEnv [(1, Approve 200 0)] exampleMinted)) = Inr 0"
    by (simp add: example_defs op_defs base_defs Let_def)
  from escrow_custody[OF m so, of _ _ _ 0 2 _ _ exampleListed _ 0 50
      "exec exampleEnv 2 (PurchaseGiftCard 0 50) exampleListed"]
    escrow_custody[OF m so, of _ _ _ 0 1 _ _ exampleListed _ 0 _ _
      "exec exampleEnv 1 (CancelGiftCardListing 0) exampleListed"]
    m so a t p c l
  show ?thesis unfolding r[symmetric] by simp
qed

text \<open>
  C5: the vault's \<open>amount\<close> and \<open>tokenAddress\<close> of a minted token are the same after
  any sequence of transactions; \<open>liquidate\<close> pays the stored amount and leaves it
  stored, so that \<open>getVaultContents\<close> afterwards reports the original asset and amount
  with the liquidated flag set; and the three resale operations leave the whole vault
  table as it is, \<open>liquidated\<close> included, whether they succeed or fail.
\<close>

theorem vault_contents_never_mutated:
  "(owners s tid \<noteq> 0 \<longrightarrow>
      tokenAddress (vaults (run en xs s) tid) = tokenAddress (vaults s tid) \<and>
      amount (vaults (run en xs s) tid) = amount (vaults s tid)) \<and>
   (liquidate en c tid s = Inr s1 \<longrightarrow>
      getVaultContents s1 tid = (vaults s tid)\<lparr>liquidated := True\<rparr> \<and>
      amount (getVaultContents s1 tid) = amount (vaults s tid) \<and>
      tokenAddress (getVaultContents s1 tid) = tokenAddress (vaults s tid)) \<and>
   vaults (exec en c (ListGiftCard t prc) s) = vaults s \<and>
   vaults (exec en c (PurchaseGiftCard l val) s) = vaults s \<and>
   vaults (exec en c (CancelGiftCardListing l) s) = vaults s"
proof -
  have 1: "owners s tid \<noteq> 0 \<longrightarrow>
      tokenAddress (vaults (run en xs s) tid) = tokenAddress (vaults s tid) \<and>
      amount (vaults (run en xs s) tid) = amount (vaults s tid)"
    using run_vault_frame[of s tid en xs] by blast
  have 2: "liquidate en c tid s = Inr s1 \<longrightarrow>
      getVaultContents s1 tid = (vaults s tid)\<lparr>liquidated := True\<rparr> \<and>
      amount (getVaultContents s1 tid) = amount (vaults s tid) \<and>
      tokenAddress (getVaultContents s1 tid) = tokenAddress (vaults s tid)"
    by (auto simp: getVaultContents_def liquidate_def liquidateChecks_def liquidatePayout_def
        safeTransfer_def erc20Update_def ownerOf_def Let_def split: if_splits sum.splits)
  have 3: "vaults (exec en c (ListGiftCard t prc) s) = vaults s"
    by (auto simp: exec_def listGiftCard_def base_defs Let_def
        split: if_splits sum.splits prod.splits)
  have 4: "vaults (exec en c (PurchaseGiftCard l val) s) = vaults s"
    by (auto simp: exec_def purchaseGiftCard_def base_defs Let_def
        split: if_splits sum.splits prod.splits)
  have 5: "vaults (exec en c (CancelGiftCardListing l) s) = vaults s"
    by (auto simp: exec_def cancelGiftCardListing_def base_defs Let_def
        split: if_splits sum.splits prod.splits)
  from 1 2 3 4 5 show ?thesis by blast
qed

theorem vault_contents_never_mutated_witness:
  "owners exampleMinted 0 \<noteq> 0 \<and>
   amount (vaults exampleMinted 0) = 100 \<and> tokenAddress (vaults exampleMinted 0) = 7 \<and>
   amount (vaults (run exampleEnv
      [(1, Approve 200 0), (1, ListGiftCard 0 50), (2, PurchaseGiftCard 0 50), (2, Liquidate 0)]
      exampleMinted) 0) = 100 \<and>
   liquidate exampleEnv 1 0 exampleMinted = Inr (exec exampleEnv 1 (Liquidate 0) exampleMinted) \<and>
   getVaultContents (exec exampleEnv 1 (Liquidate 0) exampleMinted) 0 =
     \<lparr>tokenAddress = 7, amount = 100, liquidated = True\<rparr>"
proof -
  have h: "owners exampleMinted 0 \<noteq> 0"
    by (simp add: example_defs op_defs base_defs Let_def)
  have v: "vaults exampleMinted 0 = \<lparr>tokenAddress = 7, amount = 100, liquidated = False\<rparr>"
    by (simp add: example_defs op_defs base_defs Let_def)
  have q: "liquidate exampleEnv 1 0 exampleMinted =
           Inr (exec exampleEnv 1 (Liquidate 0) exampleMinted)"
    by (simp add: example_defs op_defs base_defs Let_def)
  from vault_contents_never_mutated[of exampleMinted 0 exampleEnv
      "[(1, Approve 200 0), (1, ListGiftCard 0 50), (2, PurchaseGiftCard 0 50), (2, Liquidate 0)]"
      1 "exec exampleEnv 1 (Liquidate 0) exampleMinted"] h v q
  show ?thesis by simp
qed

text \<open>
  C6: a listing that exists (its id is below the counter) and is inactive stays
  inactive through every sequence of transactions, from any state and for any senders;
  this holds of artwork listings and of resale listings.  A new listing is only
  created at the counter's value, which existing ids are below.
\<close>

theorem inactive_listing_is_terminal:
  "(lid < artistListingCounter s \<and> \<not> ArtistListing.active (artistListings s lid) \<longrightarrow>
      \<not> ArtistListing.active (artistListings (run en xs s) lid)) \<and>
   (lid < giftCardListingCounter s \<and> \<not> active (giftCardListings s lid) \<longrightarrow>
      \<not> active (giftCardListings (run en xs s) lid))"
  using run_artist_inactive[of lid s en xs] run_giftCard_inactive[of lid s en xs] by blast

theorem inactive_listing_is_terminal_witness:
  "0 < artistListingCounter (exec exampleEnv 3 (CancelArtistListing 0) exampleArtwork) \<and>
   ArtistListing.active (artistListings exampleArtwork 0) \<and>
   \<not> ArtistListing.active
       (artistListings (exec exampleEnv 3 (CancelArtistListing 0) exampleArtwork) 0) \<and>
   \<not> ArtistListing.active
       (artistListings
          (run exampleEnv [(3, CreateArtistListing ''Qn'' 60), (2, PurchaseArtistDesign 0 50)]
             (exec exampleEnv 3 (CancelArtistListing 0) exampleArtwork)) 0) \<and>
   0 < giftCardListingCounter (exec exampleEnv 1 (CancelGiftCardListing 0) exampleListed) \<and>
   \<not> active (giftCardListings (exec exampleEnv 1 (CancelGiftCardListing 0) exampleListed) 0) \<and>
   \<not> active (giftCardListings
        (run exampleEnv [(1, Approve 200 0), (1, ListGiftCard 0 50), (2, PurchaseGiftCard 0 50)]
           (exec exampleEnv 1 (CancelGiftCardListing 0) exampleListed)) 0)"
proof -
  have h: "0 < artistListingCounter (exec exampleEnv 3 (CancelArtistListing 0) exampleArtwork)"
    "ArtistListing.active (artistListings exampleArtwork 0)"
    "\<not> ArtistListing.active
       (artistListings (exec exampleEnv 3 (CancelArtistListing 0) exampleArtwork) 0)"
    by (simp_all add: example_defs op_defs base_defs Let_def)
  have g: "0 < giftCardListingCounter (exec exampleEnv 1 (CancelGiftCardListing 0) exampleListed)"
    "\<not> active (giftCardListings (exec exampleEnv 1 (CancelGiftCardListing 0) exampleListed) 0)"
    by (simp_all add: example_defs op_defs base_defs Let_def)
  from inactive_listing_is_terminal[of 0 "exec exampleEnv 3 (CancelArtistListing 0) exampleArtwork"
      exampleEnv "[(3, CreateArtistListing ''Qn'' 60), (2, PurchaseArtistDesign 0 50)]"]
    inactive_listing_is_terminal[of 0 "exec exampleEnv 1 (CancelGiftCardListing 0) exampleListed"
      exampleEnv "[(1, Approve 200 0), (1, ListGiftCard 0 50), (2, PurchaseGiftCard 0 50)]"]
    h g
  show ?thesis by simp
qed

text \<open>
  C7: for an active artwork listing and a payment of at least the price, which the
  caller can afford and the artist accepts, \<open>purchaseArtistDesign\<close> succeeds; the listing
  is already inactive in the state in which the payout runs; the whole \<open>msg.value\<close>,
  any excess over the price included, goes on from the marketplace to the artist (for a
  caller and an artist other than the marketplace the net effect on the native balances
  is one payment of \<open>val\<close> from the caller to the artist, nothing stays with the
  marketplace and nothing returns to the caller); and the result is the listing's
  \<open>ipfsHash\<close>.
\<close>

theorem purchaseArtistDesign_pays_artist_in_full:
  assumes "ArtistListing.active (artistListings s lid)"
    and "ArtistListing.price (artistListings s lid) \<le> val"
    and "val \<le> nativeBalances s sender"
    and "acceptsNative en (artist (artistListings s lid))"
  shows "\<exists>s1 s2.
     purchaseArtistDesignChecks en sender val lid s = Inr s1 \<and>
     \<not> ArtistListing.active (artistListings s1 lid) \<and>
     purchaseArtistDesignPayout en sender val lid s1 = Inr (s2, ipfsHash (artistListings s lid)) \<and>
     purchaseArtistDesign en sender val lid s = Inr (s2, ipfsHash (artistListings s lid)) \<and>
     \<not> ArtistListing.active (artistListings s2 lid) \<and>
     nativeBalances s2 =
       nativeBalances (payNative (mktAddr en) (artist (artistListings s lid)) val
                         (payNative sender (mktAddr en) val s)) \<and>
     (sender \<noteq> mktAddr en \<and> artist (artistListings s lid) \<noteq> mktAddr en \<longrightarrow>
        nativeBalances s2 = nativeBalances (payNative sender (artist (artistListings s lid)) val s) \<and>
        nativeBalances s2 (mktAddr en) = nativeBalances s (mktAddr en))"
  using assms
  by (simp add: purchaseArtistDesign_def purchaseArtistDesignChecks_def
        purchaseArtistDesignPayout_def Let_def not_less)
     (auto simp: payNative_def Let_def fun_eq_iff)

theorem purchaseArtistDesign_pays_artist_in_full_witness:
  "ArtistListing.active (artistListings exampleArtwork 0) \<and>
   ArtistListing.price (artistListings exampleArtwork 0) \<le> 80 \<and>
   80 \<le> nativeBalances exampleArtwork 2 \<and>
   acceptsNative exampleEnv (artist (artistListings exampleArtwork 0)) \<and>
   map_sum id snd (purchaseArtistDesign exampleEnv 2 80 0 exampleArtwork) = Inr ''Qm'' \<and>
   \<not> ArtistListing.active
       (artistListings (exec exampleEnv 2 (PurchaseArtistDesign 0 80) exampleArtwork) 0) \<and>
   nativeBalances (exec exampleEnv 2 (PurchaseArtistDesign 0 80) exampleArtwork) 3 = 1080 \<and>
   nativeBalances (exec exampleEnv 2 (PurchaseArtistDesign 0 80) exampleArtwork) 2 = 920 \<and>
   nativeBalances (exec exampleEnv 2 (PurchaseArtistDesign 0 80) exampleArtwork) 200 = 1000"
proof -
  have h: "ArtistListing.active (artistListings exampleArtwork 0)"
    "ArtistListing.price (artistListings exampleArtwork 0) \<le> 80"
    "80 \<le> nativeBalances exampleArtwork 2"
    "acceptsNative exampleEnv (artist (artistListings exampleArtwork 0))"
    by (simp_all add: example_defs op_defs base_defs Let_def)
  have v: "ipfsHash (artistListings exampleArtwork 0) = ''Qm'' \<and>
           artist (artistListings exampleArtwork 0) = 3 \<and>
           nativeBalances exampleArtwork = (\<lambda>a. 1000) \<and> mktAddr exampleEnv = 200"
    by (simp add: example_defs op_defs base_defs Let_def)
  from purchaseArtistDesign_pays_artist_in_full[OF h]
  obtain s2 where
    p: "purchaseArtistDesign exampleEnv 2 80 0 exampleArtwork =
          Inr (s2, ipfsHash (artistListings exampleArtwork 0))"
    and a: "\<not> ArtistListing.active (artistListings s2 0)"
    and n: "2 \<noteq> mktAddr exampleEnv \<and> artist (artistListings exampleArtwork 0) \<noteq> mktAddr exampleEnv \<longrightarrow>
        nativeBalances s2 = nativeBalances
           (payNative 2 (artist (artistListings exampleArtwork 0)) 80 exampleArtwork) \<and>
        nativeBalances s2 (mktAddr exampleEnv) = nativeBalances exampleArtwork (mktAddr exampleEnv)"
    by blast
  from p have e: "exec exampleEnv 2 (PurchaseArtistDesign 0 80) exampleArtwork = s2"
    by (simp add: exec_def)
  from n v have "nativeBalances s2 3 = 1080 \<and> nativeBalances s2 2 = 920 \<and>
      nativeBalances s2 200 = 1000"
    by (simp add: payNative_def Let_def)
  with h p a e v show ?thesis by simp
qed

text \<open>
  C8: for a minted token and a caller who is not its current owner, \<open>liquidate\<close> fails
  with \<open>NotTokenOwner\<close>, whether or not the vault has been liquidated: the state \<open>s\<close> is
  arbitrary, and the ownership check is the first thing the function does.
\<close>

theorem liquidate_not_owner:
  assumes "owners s tid \<noteq> 0" and "sender \<noteq> owners s tid"
  shows "liquidate en sender tid s = Inl NotTokenOwner"
  using assms by (auto simp: liquidate_def liquidateChecks_def ownerOf_def)

theorem liquidate_not_owner_witness:
  "owners exampleMinted 0 \<noteq> 0 \<and> 2 \<noteq> owners exampleMinted 0 \<and>
   \<not> liquidated (vaults exampleMinted 0) \<and>
   liquidate exampleEnv 2 0 exampleMinted = Inl NotTokenOwner \<and>
   liquidated (vaults (exec exampleEnv 1 (Liquidate 0) exampleMinted) 0) \<and>
   liquidate exampleEnv 2 0 (exec exampleEnv 1 (Liquidate 0) exampleMinted) = Inl NotTokenOwner"
proof -
  have h: "owners exampleMinted 0 \<noteq> 0" "2 \<noteq> owners exampleMinted 0"
    by (simp_all add: example_defs op_defs base_defs Let_def)
  have l: "\<not> liquidated (vaults exampleMinted 0)"
    by (simp add: example_defs op_defs base_defs Let_def)
  have k: "owners (exec exampleEnv 1 (Liquidate 0) exampleMinted) 0 \<noteq> 0"
    "2 \<noteq> owners (exec exampleEnv 1 (Liquidate 0) exampleMinted) 0"
    "liquidated (vaults (exec exampleEnv 1 (Liquidate 0) exampleMinted) 0)"
    by (simp_all add: example_defs op_defs base_defs Let_def)
  from liquidate_not_owner[OF h] liquidate_not_owner[OF k(1,2)] h l k(3) show ?thesis by simp
qed

text \<open>
  C9, as stated, does not hold for \<open>getMetadataURI\<close>: in the freshly deployed world
  token 5 has never been minted, \<open>getVaultContents\<close> returns the zero-value record for
  it, but \<open>getMetadataURI\<close> fails with \<open>ERC721NonexistentToken\<close> instead of returning an
  empty reference, because the inherited \<open>tokenURI\<close> requires the token to have an owner.
\<close>

theorem getMetadataURI_unknown_id_counterexample:
  "owners exampleState 5 = 0 \<and> getVaultContents exampleState 5 = zeroVault \<and>
   getMetadataURI exampleState 5 = Inl ERC721NonexistentToken \<and>
   getMetadataURI exampleState 5 \<noteq> Inr []"
  by (simp add: example_defs op_defs base_defs)

text \<open>
  C9, amended: both reads are functions of the state alone and change nothing.
  \<open>getVaultContents\<close> never fails: it returns the stored record, which in every state
  reached from deployment is the zero-value record for an id that was never minted, and
  which right after \<open>createGiftCard\<close> is the deposited asset and amount, not liquidated.
  \<open>getMetadataURI\<close> returns the stored reference for a minted id (right after
  \<open>createGiftCard\<close>, the reference given there) and fails with \<open>ERC721NonexistentToken\<close>
  for an id that was never minted.
\<close>

theorem reads_of_known_and_unknown_ids:
  assumes "s = run en xs (deployed b a n)"
  shows "getVaultContents s tid = vaults s tid \<and>
         (owners s tid = 0 \<longrightarrow>
            getVaultContents s tid = zeroVault \<and>
            getMetadataURI s tid = Inl ERC721NonexistentToken) \<and>
         (owners s tid \<noteq> 0 \<longrightarrow> getMetadataURI s tid = Inr (tokenURIs s tid)) \<and>
         (createGiftCard en c uri tok amt s = Inr (s1, t) \<longrightarrow>
            owners s1 t = c \<and> c \<noteq> 0 \<and>
            getVaultContents s1 t = \<lparr>tokenAddress = tok, amount = amt, liquidated = False\<rparr> \<and>
            getMetadataURI s1 t = Inr uri)"
proof -
  have 1: "owners s tid = 0 \<longrightarrow> getVaultContents s tid = zeroVault"
    using run_unminted_vault[of en xs b a n tid] assms by (simp add: getVaultContents_def)
  have 2: "owners s1 t = c \<and> c \<noteq> 0 \<and>
           getVaultContents s1 t = \<lparr>tokenAddress = tok, amount = amt, liquidated = False\<rparr> \<and>
           getMetadataURI s1 t = Inr uri"
    if cr: "createGiftCard en c uri tok amt s = Inr (s1, t)"
  proof -
    from createGiftCard_Inr[OF cr] have o: "owners s1 t = c" "c \<noteq> 0" by simp_all
    from cr have "vaults s1 t = \<lparr>tokenAddress = tok, amount = amt, liquidated = False\<rparr> \<and>
        tokenURIs s1 t = uri"
      by (auto simp: createGiftCard_def Let_def split: if_splits sum.splits)
    with o show ?thesis
      by (simp add: getVaultContents_def getMetadataURI_def tokenURI_def)
  qed
  from 1 2 show ?thesis
    by (auto simp: getVaultContents_def getMetadataURI_def tokenURI_def)
qed

theorem reads_of_known_and_unknown_ids_witness:
  "exampleMinted = run exampleEnv [(1, CreateGiftCard ''uri'' 7 100)]
      (deployed (\<lambda>t a. if a = 1 \<or> a = 4 \<or> a = 9 then 500 else 0)
         (\<lambda>t a sp. if (a = 1 \<or> a = 9) \<and> sp = 100 then 500 else 0) (\<lambda>a. 1000)) \<and>
   owners exampleMinted 1 = 0 \<and> getVaultContents exampleMinted 1 = zeroVault \<and>
   getMetadataURI exampleMinted 1 = Inl ERC721NonexistentToken \<and>
   owners exampleMinted 0 \<noteq> 0 \<and> getMetadataURI exampleMinted 0 = Inr ''uri'' \<and>
   map_sum id snd (createGiftCard exampleEnv 1 ''two'' 8 30 exampleMinted) = Inr 1 \<and>
   getMetadataURI (exec exampleEnv 1 (CreateGiftCard ''two'' 8 30) exampleMinted) 1 = Inr ''two'' \<and>
   getVaultContents (exec exampleEnv 1 (CreateGiftCard ''two'' 8 30) exampleMinted) 1 =
     \<lparr>tokenAddress = 8, amount = 30, liquidated = False\<rparr>"
proof -
  have r: "exampleMinted = run exampleEnv [(1, CreateGiftCard ''uri'' 7 100)]
      (deployed (\<lambda>t a. if a = 1 \<or> a = 4 \<or> a = 9 then 500 else 0)
         (\<lambda>t a sp. if (a = 1 \<or> a = 9) \<and> sp = 100 then 500 else 0) (\<lambda>a. 1000))"
    by (simp add: exampleMinted_def exampleState_def)
  have o: "owners exampleMinted 1 = 0" "owners exampleMinted 0 \<noteq> 0"
    "tokenURIs exampleMinted 0 = ''uri''"
    by (simp_all add: example_defs op_defs base_defs Let_def)
  have cr: "createGiftCard exampleEnv 1 ''two'' 8 30 exampleMinted =
     Inr (exec exampleEnv 1 (CreateGiftCard ''two'' 8 30) exampleMinted, 1)"
    by (simp add: example_defs op_defs base_defs Let_def)
  have m: "map_sum id snd (createGiftCard exampleEnv 1 ''two'' 8 30 exampleMinted) = Inr 1"
    by (simp add: cr)
  from reads_of_known_and_unknown_ids[OF r, of 1 1 "''two''" 8 30
      "exec exampleEnv 1 (CreateGiftCard ''two'' 8 30) exampleMinted" 1] o(1) cr
  have u: "getVaultContents exampleMinted 1 = zeroVault"
    "getMetadataURI exampleMinted 1 = Inl ERC721NonexistentToken"
    "getMetadataURI (exec exampleEnv 1 (CreateGiftCard ''two'' 8 30) exampleMinted) 1 = Inr ''two''"
    "getVaultContents (exec exampleEnv 1 (CreateGiftCard ''two'' 8 30) exampleMinted) 1 =
       \<lparr>tokenAddress = 8, amount = 30, liquidated = False\<rparr>"
    by blast+
  from reads_of_known_and_unknown_ids[OF r, of 0 0 "[]" 0 0 exampleState 0] o(2,3)
  have k: "getMetadataURI exampleMinted 0 = Inr ''uri''"
    by simp
  from r o(1,2) u k m show ?thesis by blast
qed

text \<open>
  C10: in every state reached from deployment, cancelling a listing that was never
  created (an id at or above the counter) fails with \<open>NotSeller\<close> for every caller, in
  both cancel functions; a transaction's caller is never the zero address.  The
  authorisation check comes first in general: whatever the \<open>active\<close> flag, a caller who
  is not the recorded artist or seller gets \<open>NotSeller\<close>, in any state \<open>r\<close>.
\<close>

theorem cancel_missing_listing_is_NotSeller:
  assumes "c \<noteq> 0" and "s = run en xs (deployed b a n)"
  shows "(artistListingCounter s \<le> lid \<longrightarrow> cancelArtistListing c lid s = Inl NotSeller) \<and>
         (giftCardListingCounter s \<le> lid \<longrightarrow> cancelGiftCardListing en c lid s = Inl NotSeller) \<and>
         (artist (artistListings r lid) \<noteq> c \<longrightarrow> cancelArtistListing c lid r = Inl NotSeller) \<and>
         (seller (giftCardListings r lid) \<noteq> c \<longrightarrow>
            cancelGiftCardListing en c lid r = Inl NotSeller)"
proof -
  have 1: "artistListingCounter s \<le> lid \<longrightarrow> artist (artistListings s lid) = 0"
    using run_artist_fresh[of en xs b a n lid] assms(2) by (auto simp: zeroArtistListing_def)
  have 2: "giftCardListingCounter s \<le> lid \<longrightarrow> seller (giftCardListings s lid) = 0"
    using run_giftCard_fresh[of en xs b a n lid] assms(2) by (auto simp: zeroGiftCardListing_def)
  from 1 2 assms(1) show ?thesis
    by (auto simp: cancelArtistListing_def cancelGiftCardListing_def Let_def)
qed

theorem cancel_missing_listing_is_NotSeller_witness:
  "(2::address) \<noteq> 0 \<and>
   exampleListed = run exampleEnv
     [(1, CreateGiftCard ''uri'' 7 100), (1, Approve 200 0), (1, ListGiftCard 0 50)]
     (deployed (\<lambda>t a. if a = 1 \<or> a = 4 \<or> a = 9 then 500 else 0)
       (\<lambda>t a sp. if (a = 1 \<or> a = 9) \<and> sp = 100 then 500 else 0) (\<lambda>a. 1000)) \<and>
   artistListingCounter exampleListed \<le> 0 \<and>
   cancelArtistListing 2 0 exampleListed = Inl NotSeller \<and>
   giftCardListingCounter exampleListed \<le> 1 \<and>
   cancelGiftCardListing exampleEnv 2 1 exampleListed = Inl NotSeller \<and>
   seller (giftCardListings exampleListed 0) \<noteq> 2 \<and>
   cancelGiftCardListing exampleEnv 2 0 exampleListed = Inl NotSeller"
proof -
  have z: "(2::address) \<noteq> 0" by simp
  have r: "exampleListed = run exampleEnv
     [(1, CreateGiftCard ''uri'' 7 100), (1, Approve 200 0), (1, ListGiftCard 0 50)]
     (deployed (\<lambda>t a. if a = 1 \<or> a = 4 \<or> a = 9 then 500 else 0)
       (\<lambda>t a sp. if (a = 1 \<or> a = 9) \<and> sp = 100 then 500 else 0) (\<lambda>a. 1000))"
    by (simp add: exampleListed_def exampleMinted_def exampleState_def)
  have k: "artistListingCounter exampleListed \<le> 0" "giftCardListingCounter exampleListed \<le> 1"
    "seller (giftCardListings exampleListed 0) \<noteq> 2"
    by (simp_all add: example_defs op_defs base_defs Let_def)
  from cancel_missing_listing_is_NotSeller[OF z r, of 0 exampleListed]
    cancel_missing_listing_is_NotSeller[OF z r, of 1 exampleListed] k
  show ?thesis using r by simp
qed


end
